theory Spec2Isabelle
  imports Complex_Main
begin

section \<open>The Session class of \<^verbatim>\<open>@gemeentenijmegen/session\<close>\<close>

text \<open>
  A shallow embedding of the \<^verbatim>\<open>Session\<close> class (the version with
  \<^verbatim>\<open>sessionHash\<close>, \<^verbatim>\<open>setValue\<close> and a configurable ttl).

  Conventions of the embedding:
  \<^item> A JavaScript string is the list of the bytes of its UTF-8 encoding (\<^typ>\<open>string\<close>).
    Strings with a lone surrogate have no such encoding and are outside the model.
  \<^item> A JavaScript object used as a dictionary is a map from property names to values.
    Its entry named \<^verbatim>\<open>__proto__\<close>, if it has one, stands for the object's prototype:
    the assignment \<^verbatim>\<open>M['__proto__'] = v\<close> sets the prototype of \<open>M\<close> and
    \<^verbatim>\<open>M['__proto__']\<close> reads it back, but it is not an own property, and what is sent
    to the store is the own properties (\<open>own_entries\<close> below). Objects with an own
    property of that name, and the other properties inherited from
    \<^verbatim>\<open>Object.prototype\<close>, are not modelled.
  \<^item> Every method is \<^verbatim>\<open>async\<close> and awaits each call to the store before it
    goes on; one handle is used by one request, so a method is a function from the handle
    before the call to the result and the handle after it. A rejected promise (a
    \<^verbatim>\<open>throw\<close>) is the \<open>Inl\<close> branch of the result.
  \<^item> A clock reading (\<^verbatim>\<open>getTime()\<close>) is a whole number of milliseconds, an integer
    here. The ttl in minutes is a JavaScript number, a rational here, and the arithmetic on
    it is exact. JavaScript computes with doubles: for a whole number of minutes below
    \<open>2^32\<close> and a clock reading from 0 to below \<open>2^52\<close> its result is the exact one
    (the quotient by 1000 is rounded by less than a thousandth, and the whole numbers
    involved are below \<open>2^53\<close>); statements that depend on it are made within these
    bounds.
  \<^item> What the client returns is a value. A mock that hands out one shared object, which
    a later assignment through the handle would change for the mock too, is outside the
    model.
  \<^item> \<^verbatim>\<open>console.error\<close> has no effect on the handle or the store and is left out.
\<close>

subsection \<open>Values\<close>

text \<open>The attribute values of the store's wire format that the class and its tests use.\<close>

datatype attribute_value =
    AV_S string
  | AV_N string
  | AV_BOOL bool
  | AV_NULL bool
  | AV_L "attribute_value list"
  | AV_M "string \<Rightarrow> attribute_value option"

type_synonym attributes = "string \<Rightarrow> attribute_value option"

text \<open>What reading a property of an attribute value gives back.\<close>

datatype js_value =
    VString string
  | VBool bool
  | VList "attribute_value list"
  | VMap attributes

text \<open>\<^verbatim>\<open>a[type]\<close> for an attribute value \<open>a\<close>: \<open>None\<close> is \<^verbatim>\<open>undefined\<close>.\<close>

fun attribute_field :: "attribute_value \<Rightarrow> string \<Rightarrow> js_value option" where
  "attribute_field (AV_S s) t = (if t = ''S'' then Some (VString s) else None)"
| "attribute_field (AV_N s) t = (if t = ''N'' then Some (VString s) else None)"
| "attribute_field (AV_BOOL b) t = (if t = ''BOOL'' then Some (VBool b) else None)"
| "attribute_field (AV_NULL b) t = (if t = ''NULL'' then Some (VBool b) else None)"
| "attribute_field (AV_L xs) t = (if t = ''L'' then Some (VList xs) else None)"
| "attribute_field (AV_M m) t = (if t = ''M'' then Some (VMap m) else None)"

text \<open>
  The own properties of a value, at every depth: what the client's serializer, which walks
  the entries of each map with \<^verbatim>\<open>Object.entries\<close>, puts on the wire.
\<close>

primrec own_properties :: "attribute_value \<Rightarrow> attribute_value" where
  "own_properties (AV_S s) = AV_S s"
| "own_properties (AV_N s) = AV_N s"
| "own_properties (AV_BOOL b) = AV_BOOL b"
| "own_properties (AV_NULL b) = AV_NULL b"
| "own_properties (AV_L xs) = AV_L (map own_properties xs)"
| "own_properties (AV_M m) =
     AV_M ((map_option own_properties \<circ> m)(''__proto__'' := None))"

definition own_entries :: "attributes \<Rightarrow> attributes" where
  "own_entries m = (map_option own_properties \<circ> m)(''__proto__'' := None)"

text \<open>A value of type \<^verbatim>\<open>string | false\<close>; the code can also leave \<^verbatim>\<open>undefined\<close> in it.\<close>

datatype string_or_false = JsUndefined | JsFalse | JsString string

text \<open>JavaScript truthiness: only the non-empty string is truthy.\<close>

fun truthy :: "string_or_false \<Rightarrow> bool" where
  "truthy JsUndefined = False"
| "truthy JsFalse = False"
| "truthy (JsString s) = (s \<noteq> [])"

datatype error =
    Error string
  | TypeError
  | StoreError string

subsection \<open>JavaScript strings\<close>

text \<open>
  White space and line terminators of ECMAScript, each as its UTF-8 bytes: TAB, LF, VT,
  FF, CR, SP, U+00A0, U+1680, U+2000 to U+200A, U+2028, U+2029, U+202F, U+205F, U+3000
  and U+FEFF. \<^verbatim>\<open>String.prototype.trim\<close> and the conversion of a string to a number
  strip exactly these.
\<close>

definition white_space :: "string list" where
  "white_space =
     [[CHR 0x09], [CHR 0x0A], [CHR 0x0B], [CHR 0x0C], [CHR 0x0D], [CHR 0x20],
      [CHR 0xC2, CHR 0xA0],
      [CHR 0xE1, CHR 0x9A, CHR 0x80],
      [CHR 0xE2, CHR 0x80, CHR 0x80], [CHR 0xE2, CHR 0x80, CHR 0x81],
      [CHR 0xE2, CHR 0x80, CHR 0x82], [CHR 0xE2, CHR 0x80, CHR 0x83],
      [CHR 0xE2, CHR 0x80, CHR 0x84], [CHR 0xE2, CHR 0x80, CHR 0x85],
      [CHR 0xE2, CHR 0x80, CHR 0x86], [CHR 0xE2, CHR 0x80, CHR 0x87],
      [CHR 0xE2, CHR 0x80, CHR 0x88], [CHR 0xE2, CHR 0x80, CHR 0x89],
      [CHR 0xE2, CHR 0x80, CHR 0x8A],
      [CHR 0xE2, CHR 0x80, CHR 0xA8], [CHR 0xE2, CHR 0x80, CHR 0xA9],
      [CHR 0xE2, CHR 0x80, CHR 0xAF],
      [CHR 0xE2, CHR 0x81, CHR 0x9F],
      [CHR 0xE3, CHR 0x80, CHR 0x80],
      [CHR 0xEF, CHR 0xBB, CHR 0xBF]]"

text \<open>Removes from the front of \<open>s\<close> every leading occurrence of one of the sequences \<open>ws\<close>.\<close>

function strip :: "string list \<Rightarrow> string \<Rightarrow> string" where
  "strip ws s =
     (case List.find (\<lambda>w. w \<noteq> [] \<and> take (length w) s = w) ws of
        None \<Rightarrow> s
      | Some w \<Rightarrow> strip ws (drop (length w) s))"
  by pat_completeness auto
termination
proof (relation "measure (\<lambda>(ws, s). length s)")
  show "wf (measure (\<lambda>(ws, s). length s))" by simp
next
  fix ws :: "string list" and s w :: string
  assume "List.find (\<lambda>w. w \<noteq> [] \<and> take (length w) s = w) ws = Some w"
  then have "w \<noteq> []" and "take (length w) s = w"
    by (auto simp: find_Some_iff)
  then have "s \<noteq> []" by auto
  with \<open>w \<noteq> []\<close> show "((ws, drop (length w) s), (ws, s)) \<in> measure (\<lambda>(ws, s). length s)"
    by simp
qed

declare strip.simps [simp del]

definition trim :: "string \<Rightarrow> string" where
  "trim s = rev (strip (map rev white_space) (rev (strip white_space s)))"

fun split_on :: "char \<Rightarrow> string \<Rightarrow> string list" where
  "split_on c [] = [[]]"
| "split_on c (x # xs) =
     (if x = c then [] # split_on c xs
      else (case split_on c xs of [] \<Rightarrow> [[x]] | p # ps \<Rightarrow> (x # p) # ps))"

definition hex_digit :: "char \<Rightarrow> nat option" where
  "hex_digit c =
     (let n = of_char c :: nat in
      if 48 \<le> n \<and> n \<le> 57 then Some (n - 48)
      else if 65 \<le> n \<and> n \<le> 70 then Some (n - 55)
      else if 97 \<le> n \<and> n \<le> 102 then Some (n - 87)
      else None)"

text \<open>Reads one escape \<^verbatim>\<open>%XX\<close> at the front of a string.\<close>

definition escape :: "string \<Rightarrow> (nat \<times> string) option" where
  "escape s =
     (case s of
        p # a # b # rest \<Rightarrow>
          (if p = CHR ''%'' then
             (case (hex_digit a, hex_digit b) of
                (Some x, Some y) \<Rightarrow> Some (16 * x + y, rest)
              | _ \<Rightarrow> None)
           else None)
      | _ \<Rightarrow> None)"

fun escapes :: "nat \<Rightarrow> string \<Rightarrow> (nat list \<times> string) option" where
  "escapes 0 s = Some ([], s)"
| "escapes (Suc n) s =
     (case escape s of
        None \<Rightarrow> None
      | Some (b, rest) \<Rightarrow>
          (case escapes n rest of None \<Rightarrow> None | Some (bs, rest') \<Rightarrow> Some (b # bs, rest')))"

text \<open>The well-formed UTF-8 byte sequences of one code point (Unicode, table 3-7).\<close>

definition continuation :: "nat \<Rightarrow> bool" where
  "continuation b = (128 \<le> b \<and> b \<le> 191)"

fun utf8_code_point :: "nat list \<Rightarrow> bool" where
  "utf8_code_point [a, b] = (194 \<le> a \<and> a \<le> 223 \<and> continuation b)"
| "utf8_code_point [a, b, c] =
     (continuation c \<and>
      (if a = 224 then 160 \<le> b \<and> b \<le> 191
       else if a = 237 then 128 \<le> b \<and> b \<le> 159
       else 225 \<le> a \<and> a \<le> 239 \<and> continuation b))"
| "utf8_code_point [a, b, c, d] =
     (continuation c \<and> continuation d \<and>
      (if a = 240 then 144 \<le> b \<and> b \<le> 191
       else if a = 244 then 128 \<le> b \<and> b \<le> 143
       else 241 \<le> a \<and> a \<le> 243 \<and> continuation b))"
| "utf8_code_point bs = False"

text \<open>The number of bytes a leading byte announces: its leading one bits.\<close>

definition leading_ones :: "nat \<Rightarrow> nat" where
  "leading_ones b =
     (if b < 128 then 0 else if b < 192 then 1 else if b < 224 then 2
      else if b < 240 then 3 else if b < 248 then 4 else 5)"

lemma escape_shorter: "escape s = Some (b, rest) \<Longrightarrow> length rest < length s"
  by (auto simp: escape_def split: list.splits if_splits option.splits)

lemma escapes_shorter: "escapes n s = Some (bs, rest) \<Longrightarrow> length rest \<le> length s"
proof (induction n arbitrary: s bs rest)
  case 0
  then show ?case by simp
next
  case (Suc n)
  then show ?case
    by (fastforce split: option.splits dest: escape_shorter)
qed

text \<open>
  \<^verbatim>\<open>decodeURIComponent\<close>: \<open>None\<close> is the \<^verbatim>\<open>URIError\<close> it throws on a malformed
  escape or on escapes that are not the UTF-8 encoding of a code point.
\<close>

function decodeURIComponent :: "string \<Rightarrow> string option" where
  "decodeURIComponent [] = Some []"
| "decodeURIComponent (c # cs) =
     (if c \<noteq> CHR ''%'' then map_option ((#) c) (decodeURIComponent cs)
      else
        (case escape (c # cs) of
           None \<Rightarrow> None
         | Some (b, rest) \<Rightarrow>
             (if leading_ones b = 0 then map_option ((#) (char_of b)) (decodeURIComponent rest)
              else if leading_ones b = 1 \<or> leading_ones b > 4 then None
              else
                (case escapes (leading_ones b - 1) rest of
                   None \<Rightarrow> None
                 | Some (bs, rest') \<Rightarrow>
                     (if utf8_code_point (b # bs)
                      then map_option ((@) (map char_of (b # bs))) (decodeURIComponent rest')
                      else None)))))"
  by pat_completeness auto
termination
proof (relation "measure length")
  show "wf (measure length)" by simp
next
  fix c :: char and cs :: string
  show "(cs, c # cs) \<in> measure length" by simp
next
  fix c :: char and cs rest :: string and x2 :: "nat \<times> string" and b :: nat
  assume "escape (c # cs) = Some x2" "(b, rest) = x2"
  then have "escape (c # cs) = Some (b, rest)" by simp
  from escape_shorter [OF this] show "(rest, c # cs) \<in> measure length" by simp
next
  fix c :: char and cs rest rest' :: string and x2 :: "nat \<times> string" and b :: nat
    and x2a :: "nat list \<times> string" and bs :: "nat list"
  assume "escape (c # cs) = Some x2" "(b, rest) = x2"
    "escapes (leading_ones b - 1) rest = Some x2a" "(bs, rest') = x2a"
  then have 1: "escape (c # cs) = Some (b, rest)"
    and 2: "escapes (leading_ones b - 1) rest = Some (bs, rest')" by simp_all
  from escape_shorter [OF 1] escapes_shorter [OF 2]
  show "(rest', c # cs) \<in> measure length" by simp
qed

declare decodeURIComponent.simps [simp del]

definition hex_char :: "nat \<Rightarrow> char" where
  "hex_char d = ''0123456789ABCDEF'' ! d"

text \<open>The characters \<^verbatim>\<open>encodeURIComponent\<close> leaves as they are.\<close>

definition uri_unreserved :: "char \<Rightarrow> bool" where
  "uri_unreserved c =
     (let n = of_char c :: nat in
      (48 \<le> n \<and> n \<le> 57) \<or> (65 \<le> n \<and> n \<le> 90) \<or> (97 \<le> n \<and> n \<le> 122) \<or>
      c \<in> set ''-_.!~*'()'')"

definition encodeURIComponent :: "string \<Rightarrow> string" where
  "encodeURIComponent s =
     concat (map (\<lambda>c. if uri_unreserved c then [c]
                      else [CHR ''%'', hex_char (of_char c div 16), hex_char (of_char c mod 16)]) s)"

subsection \<open>Numbers as decimal strings\<close>

definition digit_char :: "nat \<Rightarrow> char" where
  "digit_char d = ''0123456789'' ! d"

function decimal :: "nat \<Rightarrow> string" where
  "decimal n = (if n < 10 then [digit_char n] else decimal (n div 10) @ [digit_char (n mod 10)])"
  by pat_completeness auto
termination
  by (relation "measure id") auto

declare decimal.simps [simp del]

text \<open>\<^verbatim>\<open>toString()\<close> of a whole number (below \<open>10^21\<close> in magnitude, where JavaScript
  prints all digits).\<close>

definition number_toString :: "int \<Rightarrow> string" where
  "number_toString i = (if i < 0 then CHR ''-'' # decimal (nat (- i)) else decimal (nat i))"

subsection \<open>Strings compared with \<^verbatim>\<open>false\<close>\<close>

text \<open>
  \<^verbatim>\<open>s == false\<close> converts both sides to numbers, so it holds when the string converts
  to zero. The functions below decide that for the numeric literals of ECMAScript: white
  space only; a literal \<^verbatim>\<open>0x\<close>, \<^verbatim>\<open>0o\<close> or \<^verbatim>\<open>0b\<close> with zero digits only; or a
  decimal literal (optional sign, digits with an optional fraction, optional exponent)
  whose value rounds to zero as a double, that is, lies at or below \<open>2^-1075\<close>.
\<close>

definition is_digit :: "char \<Rightarrow> bool" where
  "is_digit c = (let n = of_char c :: nat in 48 \<le> n \<and> n \<le> 57)"

definition digits_value :: "string \<Rightarrow> nat" where
  "digits_value ds = foldl (\<lambda>acc c. 10 * acc + (of_char c - 48)) 0 ds"

definition exponent_part :: "string \<Rightarrow> int option" where
  "exponent_part s =
     (case s of
        [] \<Rightarrow> Some 0
      | e # r \<Rightarrow>
          (if e = CHR ''e'' \<or> e = CHR ''E'' then
             (let (neg, ds) = (case r of
                                 [] \<Rightarrow> (False, r)
                               | c # r' \<Rightarrow> if c = CHR ''-'' then (True, r')
                                           else if c = CHR ''+'' then (False, r') else (False, r))
              in if ds \<noteq> [] \<and> list_all is_digit ds
                 then Some (if neg then - int (digits_value ds) else int (digits_value ds))
                 else None)
           else None))"

text \<open>A decimal literal without sign, as its digits read as a number and a power of ten.\<close>

definition unsigned_decimal :: "string \<Rightarrow> (nat \<times> int) option" where
  "unsigned_decimal s =
     (let ip = takeWhile is_digit s;
          r1 = dropWhile is_digit s;
          (fp, r2) = (case r1 of
                        [] \<Rightarrow> ([], r1)
                      | c # r \<Rightarrow> if c = CHR ''.'' then (takeWhile is_digit r, dropWhile is_digit r)
                                 else ([], r1))
      in if ip = [] \<and> fp = [] then None
         else (case exponent_part r2 of
                 None \<Rightarrow> None
               | Some ex \<Rightarrow> Some (digits_value (ip @ fp), ex - int (length fp))))"

definition rounds_to_zero :: "nat \<Rightarrow> int \<Rightarrow> bool" where
  "rounds_to_zero m ex = (m = 0 \<or> (ex < 0 \<and> m * 2 ^ 1075 \<le> 10 ^ nat (- ex)))"

definition string_is_zero :: "string \<Rightarrow> bool" where
  "string_is_zero s =
     (let t = trim s in
      case t of
        [] \<Rightarrow> True
      | c # r \<Rightarrow>
          (if c = CHR ''0'' \<and> r \<noteq> [] \<and> hd r \<in> set ''xXoObB''
           then tl r \<noteq> [] \<and> list_all (\<lambda>d. d = CHR ''0'') (tl r)
           else
             (case unsigned_decimal (if c = CHR ''+'' \<or> c = CHR ''-'' then r else t) of
                None \<Rightarrow> False
              | Some (m, ex) \<Rightarrow> rounds_to_zero m ex)))"

text \<open>\<^verbatim>\<open>x == false\<close> for a value of the handle's \<^verbatim>\<open>sessionId\<close> field.\<close>

fun loose_eq_false :: "string_or_false \<Rightarrow> bool" where
  "loose_eq_false JsUndefined = False"
| "loose_eq_false JsFalse = True"
| "loose_eq_false (JsString s) = string_is_zero s"

text \<open>The string such a value is when it is used as one.\<close>

fun to_String :: "string_or_false \<Rightarrow> string" where
  "to_String JsUndefined = ''undefined''"
| "to_String JsFalse = ''false''"
| "to_String (JsString s) = s"

subsection \<open>The cookie package\<close>

text \<open>
  The package \<^verbatim>\<open>cookie\<close> is a dependency of the repository. Its two functions are
  modelled as its versions 0.4 to 0.6 implement them.

  \<^verbatim>\<open>parse\<close> cuts the header at every \<^verbatim>\<open>;\<close> and skips a piece without \<^verbatim>\<open>=\<close>. The
  name is the trimmed text before the first \<^verbatim>\<open>=\<close> of the piece, the value the trimmed
  text after it, cut by \<^verbatim>\<open>slice(1, -1)\<close> when it starts with a double quote, and
  decoded with \<^verbatim>\<open>decodeURIComponent\<close> unless that throws. The first value given to a
  name stays.

  \<^verbatim>\<open>slice(1, -1)\<close> drops the first and the last UTF-16 unit. The last unit is the
  whole last character when that has one to three bytes. A character of four bytes is two
  units, and the string that is left ends in half of it, which has no UTF-8 form: the model
  keeps the first three bytes for it, so that what is left is not empty.
\<close>

definition drop_last_unit :: "string \<Rightarrow> string" where
  "drop_last_unit s =
     (let tail = length (takeWhile (\<lambda>c. continuation (of_char c)) (rev s)) in
      if tail = 0 \<or> 3 \<le> tail \<or> length s \<le> tail then butlast s
      else take (length s - (tail + 1)) s)"

definition tryDecode :: "string \<Rightarrow> string" where
  "tryDecode str =
     (if CHR ''%'' \<in> set str
      then (case decodeURIComponent str of None \<Rightarrow> str | Some d \<Rightarrow> d)
      else str)"

definition cookie_pair :: "string \<Rightarrow> (string \<times> string) option" where
  "cookie_pair seg =
     (if CHR ''='' \<notin> set seg then None
      else
        (let key = trim (takeWhile (\<lambda>c. c \<noteq> CHR ''='') seg);
             val = trim (tl (dropWhile (\<lambda>c. c \<noteq> CHR ''='') seg));
             val' = (case val of
                       [] \<Rightarrow> val
                     | c # cs \<Rightarrow> if c = CHR 0x22 then drop_last_unit cs else val)
         in Some (key, tryDecode val')))"

definition cookie_parse :: "string \<Rightarrow> (string \<Rightarrow> string option)" where
  "cookie_parse str = map_of (List.map_filter cookie_pair (split_on CHR '';'' str))"

text \<open>
  \<^verbatim>\<open>fieldContentRegExp\<close>: one or more of TAB, the characters U+0020 to U+007E and
  U+0080 to U+00FF (two bytes each, the first \<open>0xC2\<close> or \<open>0xC3\<close>).
\<close>

fun field_chars :: "string \<Rightarrow> bool" where
  "field_chars [] = True"
| "field_chars (c # cs) =
     (let n = of_char c :: nat in
      if n = 9 \<or> (32 \<le> n \<and> n \<le> 126) then field_chars cs
      else if n = 194 \<or> n = 195 then
        (case cs of
           [] \<Rightarrow> False
         | d # ds \<Rightarrow> continuation (of_char d) \<and> field_chars ds)
      else False)"

definition field_content :: "string \<Rightarrow> bool" where
  "field_content s = (s \<noteq> [] \<and> field_chars s)"

text \<open>The options of \<^verbatim>\<open>serialize\<close> that the class sets.\<close>

record serialize_options =
  httpOnly :: bool
  secure :: bool
  path :: "string option"

definition cookie_serialize :: "string \<Rightarrow> string \<Rightarrow> serialize_options \<Rightarrow> error + string" where
  "cookie_serialize name val opt =
     (if \<not> field_content name then Inl TypeError
      else
        (let value = encodeURIComponent val;
             flags = (if httpOnly opt then ''; HttpOnly'' else []) @
                     (if secure opt then ''; Secure'' else [])
         in if value \<noteq> [] \<and> \<not> field_content value then Inl TypeError
            else
              (case path opt of
                 None \<Rightarrow> Inr (name @ ''='' @ value @ flags)
               | Some p \<Rightarrow>
                   if \<not> field_content p then Inl TypeError
                   else Inr (name @ ''='' @ value @ ''; Path='' @ p @ flags))))"

subsection \<open>The store client\<close>

text \<open>
  The commands the class sends, with their inputs in this order: \<^verbatim>\<open>TableName\<close> and
  \<^verbatim>\<open>Key\<close> for a get; \<^verbatim>\<open>TableName\<close> and \<^verbatim>\<open>Item\<close> for a put;
  \<^verbatim>\<open>TableName\<close>, \<^verbatim>\<open>Key\<close>, \<^verbatim>\<open>UpdateExpression\<close>,
  \<^verbatim>\<open>ExpressionAttributeNames\<close> and \<^verbatim>\<open>ExpressionAttributeValues\<close> for an update.
  The table name is \<^verbatim>\<open>process.env.SESSION_TABLE\<close>, \<open>None\<close> when the variable is not set.
\<close>

datatype command =
    GetItemCommand "string option" attributes
  | PutItemCommand "string option" attributes
  | UpdateItemCommand "string option" attributes string "string \<Rightarrow> string option" attributes

text \<open>The part of a command's output the class reads: \<^verbatim>\<open>Item\<close>, when there is one.\<close>

record command_output =
  Item :: "attributes option"

text \<open>
  The client is outside the repository. It is modelled by the list of the commands sent
  so far and by an arbitrary function that answers a command given that history: an error
  (the promise is rejected), or an output (\<open>None\<close> is \<^verbatim>\<open>undefined\<close>, which a
  mock without an implementation returns). Every deterministic store and every mock of
  the test suite is such a function.
\<close>

record db_client =
  sent :: "command list"
  respond :: "command list \<Rightarrow> command \<Rightarrow> error + command_output option"

definition send :: "db_client \<Rightarrow> command \<Rightarrow> (error + command_output option) \<times> db_client" where
  "send c cmd = (respond c (sent c) cmd, c\<lparr>sent := sent c @ [cmd]\<rparr>)"

subsection \<open>The environment\<close>

text \<open>
  \<open>SESSION_TABLE\<close> is the environment variable. \<open>sha256_base64\<close> stands for
  \<^verbatim>\<open>crypto.createHash('sha256')\<close>, \<^verbatim>\<open>update\<close> and \<^verbatim>\<open>digest('base64')\<close>
  of Node's crypto module: a function of the bytes hashed, taken as a parameter.
\<close>

record env =
  SESSION_TABLE :: "string option"
  sha256_base64 :: "string \<Rightarrow> string"

subsection \<open>The handle\<close>

record session_options =
  ttlInMinutes :: rat

record session_handle =
  sessionId :: string_or_false
  sessionHash :: string_or_false
  session :: "command_output option"
  dbClient :: db_client
  state :: "string option"
  ttl :: rat

text \<open>\<^verbatim>\<open>this.session?.Item?.data\<close>\<close>

definition session_data :: "session_handle \<Rightarrow> attribute_value option" where
  "session_data h =
     (case session h of
        None \<Rightarrow> None
      | Some out \<Rightarrow> (case Item out of None \<Rightarrow> None | Some item \<Rightarrow> item ''data''))"

text \<open>\<^verbatim>\<open>this.session?.Item?.data?.M\<close>\<close>

definition session_M :: "session_handle \<Rightarrow> attributes option" where
  "session_M h =
     (case session_data h of
        Some (AV_M m) \<Rightarrow> Some m
      | _ \<Rightarrow> None)"

text \<open>The assignment \<^verbatim>\<open>this.session.Item.data.M = m\<close>, made only where \<open>M\<close> exists.\<close>

definition assign_M :: "attributes \<Rightarrow> session_handle \<Rightarrow> session_handle" where
  "assign_M m h =
     (case session h of
        None \<Rightarrow> h
      | Some out \<Rightarrow>
          (case Item out of
             None \<Rightarrow> h
           | Some item \<Rightarrow> h\<lparr>session := Some (out\<lparr>Item := Some (item(''data'' \<mapsto> AV_M m))\<rparr>)\<rparr>))"

subsection \<open>Methods\<close>

text \<open>
  \<^verbatim>\<open>cookies?.session != ''\<close> also holds when there is no cookie of that name
  (\<^verbatim>\<open>undefined != ''\<close>), and then \<^verbatim>\<open>cookies.session\<close>, which is
  \<^verbatim>\<open>undefined\<close>, is returned.
\<close>

definition getSessionId :: "string \<Rightarrow> string_or_false" where
  "getSessionId cookieString =
     (if cookieString = [] then JsFalse
      else
        (let cookies = cookie_parse cookieString in
         if cookies ''session'' \<noteq> Some []
         then (case cookies ''session'' of None \<Rightarrow> JsUndefined | Some v \<Rightarrow> JsString v)
         else JsFalse))"

definition hash :: "env \<Rightarrow> string \<Rightarrow> string" where
  "hash e hashString = sha256_base64 e hashString"

text \<open>\<open>options\<close> is \<open>None\<close> when the third argument is left out.\<close>

definition constructor ::
  "env \<Rightarrow> string \<Rightarrow> db_client \<Rightarrow> session_options option \<Rightarrow> session_handle" where
  "constructor e cookieString dynamoDBClient options =
     (let sid = getSessionId cookieString in
      \<lparr>sessionId = sid,
       sessionHash = (case sid of
                        JsString s \<Rightarrow> if truthy sid then JsString (hash e s) else JsFalse
                      | _ \<Rightarrow> JsFalse),
       session = None,
       dbClient = dynamoDBClient,
       state = None,
       ttl = (case options of None \<Rightarrow> 15 | Some opt \<Rightarrow> ttlInMinutes opt)\<rparr>)"

text \<open>
  \<^verbatim>\<open>Math.floor((now.getTime() / 1000) + minutes * 60).toString()\<close>, where \<open>now\<close> is the
  clock reading \<^verbatim>\<open>new Date().getTime()\<close> in milliseconds.
\<close>

definition ttlFromMinutes :: "int \<Rightarrow> rat \<Rightarrow> string" where
  "ttlFromMinutes now minutes = number_toString \<lfloor>(rat_of_int now / 1000) + minutes * 60\<rfloor>"

definition getValue :: "session_handle \<Rightarrow> string \<Rightarrow> string \<Rightarrow> error + js_value option" where
  "getValue h key type =
     (case session_data h of
        None \<Rightarrow> Inr None
      | Some (AV_M m) \<Rightarrow>
          Inr (case m key of None \<Rightarrow> None | Some a \<Rightarrow> attribute_field a type)
      | Some _ \<Rightarrow> Inl TypeError)"

text \<open>The command \<open>init\<close> builds.\<close>

definition getItemCommand :: "env \<Rightarrow> session_handle \<Rightarrow> command" where
  "getItemCommand e h =
     GetItemCommand (SESSION_TABLE e) [''sessionid'' \<mapsto> AV_S (to_String (sessionHash h))]"

definition init :: "env \<Rightarrow> session_handle \<Rightarrow> (error + command_output option) \<times> session_handle" where
  "init e h =
     (if \<not> truthy (sessionHash h) then (Inr None, h)
      else
        (case send (dbClient h) (getItemCommand e h) of
           (Inl err, c) \<Rightarrow> (Inl err, h\<lparr>dbClient := c\<rparr>)
         | (Inr out, c) \<Rightarrow>
             (case out of
                None \<Rightarrow> (Inr None, h\<lparr>dbClient := c\<rparr>)
              | Some s \<Rightarrow>
                  (case Item s of
                     None \<Rightarrow> (Inr None, h\<lparr>dbClient := c\<rparr>)
                   | Some item \<Rightarrow>
                       (case item ''data'' of
                          None \<Rightarrow> (Inr None, h\<lparr>dbClient := c\<rparr>)
                        | Some d \<Rightarrow> (Inr (Some s), h\<lparr>dbClient := c, session := Some s\<rparr>))))))"

text \<open>
  The command \<open>updateSession\<close> builds. It holds the mapping it is given; the store is
  sent the own entries of it.
\<close>

definition updateItemCommand :: "env \<Rightarrow> int \<Rightarrow> attributes \<Rightarrow> session_handle \<Rightarrow> command" where
  "updateItemCommand e now sessionData h =
     UpdateItemCommand (SESSION_TABLE e)
       [''sessionid'' \<mapsto> AV_S (to_String (sessionHash h))]
       ''SET #ttl = :ttl, #data = :data''
       [''#ttl'' \<mapsto> ''ttl'', ''#data'' \<mapsto> ''data'']
       ['':ttl'' \<mapsto> AV_N (ttlFromMinutes now (ttl h)),
        '':data'' \<mapsto> AV_M (own_entries sessionData)]"

definition updateSession ::
  "env \<Rightarrow> int \<Rightarrow> attributes \<Rightarrow> session_handle \<Rightarrow> (error + unit) \<times> session_handle" where
  "updateSession e now sessionData h =
     (if \<not> truthy (sessionHash h)
      then (Inl (Error ''no sessionid, cannot update empty session''), h)
      else
        (case send (dbClient h) (updateItemCommand e now sessionData h) of
           (Inl err, c) \<Rightarrow> (Inl err, h\<lparr>dbClient := c\<rparr>)
         | (Inr out, c) \<Rightarrow>
             (case session_M h of
                None \<Rightarrow>
                  (Inl (Error ''Session had no data before, was this a valid session?''),
                   h\<lparr>dbClient := c\<rparr>)
              | Some m \<Rightarrow> (Inr (), assign_M sessionData (h\<lparr>dbClient := c\<rparr>)))))"

text \<open>
  \<open>setValue\<close> loads the session when no data is cached (otherwise the handle goes on as it
  is, and the first component of the pair below is not used). It writes the new entry into
  the cached mapping in place (\<^verbatim>\<open>data.M[key] = { S: value }\<close>) and then passes that same
  mapping to \<open>updateSession\<close>. Reading \<^verbatim>\<open>data.M\<close> of an undefined \<open>data\<close>, or
  assigning to a property of an undefined \<open>M\<close>, raises a \<^verbatim>\<open>TypeError\<close>.
\<close>

definition setValue ::
  "env \<Rightarrow> int \<Rightarrow> string \<Rightarrow> string \<Rightarrow> session_handle \<Rightarrow> (error + unit) \<times> session_handle" where
  "setValue e now key val h =
     (case (if session_data h = None then init e h else (Inr None, h)) of
        (Inl err, h1) \<Rightarrow> (Inl err, h1)
      | (Inr r, h1) \<Rightarrow>
          (case session_M h1 of
             None \<Rightarrow> (Inl TypeError, h1)
           | Some m \<Rightarrow>
               updateSession e now (m(key \<mapsto> AV_S val)) (assign_M (m(key \<mapsto> AV_S val)) h1)))"

text \<open>
  The command \<open>createSession\<close> builds, from the handle that already holds the new hash.
\<close>

definition putItemCommand :: "env \<Rightarrow> int \<Rightarrow> attributes \<Rightarrow> session_handle \<Rightarrow> command" where
  "putItemCommand e now sessionData h =
     PutItemCommand (SESSION_TABLE e)
       [''sessionid'' \<mapsto> AV_S (to_String (sessionHash h)),
        ''data'' \<mapsto> AV_M (own_entries sessionData),
        ''ttl'' \<mapsto> AV_N (ttlFromMinutes now (ttl h))]"

text \<open>
  \<open>uuid\<close> is the value \<^verbatim>\<open>crypto.randomUUID()\<close> returns in this call.
\<close>

definition createSession ::
  "env \<Rightarrow> string \<Rightarrow> int \<Rightarrow> attributes \<Rightarrow> session_handle \<Rightarrow> (error + string) \<times> session_handle" where
  "createSession e uuid now sessionData h =
     (let h1 = h\<lparr>sessionHash := JsString (hash e uuid)\<rparr> in
      case send (dbClient h1) (putItemCommand e now sessionData h1) of
        (Inl err, c) \<Rightarrow> (Inl err, h1\<lparr>dbClient := c\<rparr>)
      | (Inr out, c) \<Rightarrow> (Inr uuid, h1\<lparr>dbClient := c, sessionId := JsString uuid\<rparr>))"

text \<open>
  \<^verbatim>\<open>this.sessionId != false\<close> is the loose comparison. The value handed to
  \<^verbatim>\<open>serialize\<close> is the session id or the empty string.
\<close>

definition getCookie :: "session_handle \<Rightarrow> error + string" where
  "getCookie h =
     cookie_serialize ''session''
       (if \<not> loose_eq_false (sessionId h) then to_String (sessionId h) else [])
       \<lparr>httpOnly = True, secure = True, path = Some ''/''\<rparr>"

subsection \<open>Calls on a handle\<close>

text \<open>
  A request handler calls the methods one after the other on its handle, and can catch
  what a call throws and go on. \<open>perform\<close> is one such call, \<open>run\<close> a sequence of them;
  the results are dropped, the handle is kept.
\<close>

datatype call =
    Init
  | CreateSession string int attributes
  | UpdateSession int attributes
  | SetValue int string string

fun perform :: "env \<Rightarrow> call \<Rightarrow> session_handle \<Rightarrow> session_handle" where
  "perform e Init h = snd (init e h)"
| "perform e (CreateSession uuid now sessionData) h = snd (createSession e uuid now sessionData h)"
| "perform e (UpdateSession now sessionData) h = snd (updateSession e now sessionData h)"
| "perform e (SetValue now key val) h = snd (setValue e now key val h)"

fun run :: "env \<Rightarrow> call list \<Rightarrow> session_handle \<Rightarrow> session_handle" where
  "run e [] h = h"
| "run e (c # cs) h = run e cs (perform e c h)"

text \<open>The tokens the random generator produced in a sequence of calls.\<close>

fun generated :: "call list \<Rightarrow> string set" where
  "generated [] = {}"
| "generated (CreateSession uuid now sessionData # cs) = insert uuid (generated cs)"
| "generated (c # cs) = generated cs"

text \<open>The token a cookie header supplies, if any.\<close>

definition supplied :: "string \<Rightarrow> string set" where
  "supplied cookieString =
     (case getSessionId cookieString of JsString t \<Rightarrow> {t} | _ \<Rightarrow> {})"

text \<open>The storage key a command addresses, and whether a command is a read.\<close>

fun command_key :: "command \<Rightarrow> attribute_value option" where
  "command_key (GetItemCommand table key) = key ''sessionid''"
| "command_key (PutItemCommand table item) = item ''sessionid''"
| "command_key (UpdateItemCommand table key expr names vals) = key ''sessionid''"

fun is_get :: "command \<Rightarrow> bool" where
  "is_get (GetItemCommand table key) = True"
| "is_get c = False"

subsection \<open>Fixtures\<close>

text \<open>
  The environment and the clients of the unit tests: a mock that answers every command
  with the same output, and one whose writes fail. The digest of the test environment is a
  stand-in that tags its argument.
\<close>

definition test_env :: env where
  "test_env = \<lparr>SESSION_TABLE = Some ''mijnuitkering-sessions'',
               sha256_base64 = (\<lambda>s. ''sha256:'' @ s)\<rparr>"

definition getItemOutput :: command_output where
  "getItemOutput =
     \<lparr>Item = Some [''data'' \<mapsto> AV_M [''loggedin'' \<mapsto> AV_BOOL True,
                                       ''bsn'' \<mapsto> AV_S ''12345678'',
                                       ''state'' \<mapsto> AV_S ''12345'']]\<rparr>"

definition ddbMock :: db_client where
  "ddbMock = \<lparr>sent = [], respond = (\<lambda>history cmd. Inr (Some getItemOutput))\<rparr>"

definition failing_writes :: db_client where
  "failing_writes =
     \<lparr>sent = [],
      respond = (\<lambda>history cmd.
        if is_get cmd then Inr (Some getItemOutput) else Inl (StoreError ''ThrottlingException''))\<rparr>"

text \<open>
  The handle of the unit tests, built from the cookie header \<^verbatim>\<open>session=12345;\<close>,
  the same handle after \<open>init\<close>, and a clock reading.
\<close>

definition new_request :: session_handle where
  "new_request = constructor test_env ''session=12345;'' ddbMock None"

definition loaded :: session_handle where
  "loaded = snd (init test_env new_request)"

definition timestamp :: int where
  "timestamp = 1700000000123"



text \<open>
  A generated token, and handles on that store: one built without a cookie, one built from
  the cookie of the unit tests, and one whose cookie holds the very token that the
  generator is about to produce.
\<close>

definition uuid1 :: string where
  "uuid1 = ''3b241101-e2bb-4255-8caf-4136c566a962''"




text \<open>
  The handle of the unit tests on the client whose writes fail, and handles with a ttl of
  thirty minutes and of a hundredth of a minute.
\<close>

definition rejected :: session_handle where
  "rejected = constructor test_env ''session=12345;'' failing_writes None"

definition thirty_minutes :: session_handle where
  "thirty_minutes = constructor test_env ''session=12345;'' ddbMock (Some \<lparr>ttlInMinutes = 30\<rparr>)"

definition fractional :: session_handle where
  "fractional = constructor test_env [] ddbMock (Some \<lparr>ttlInMinutes = 1 / 100\<rparr>)"

section \<open>Properties\<close>

subsection \<open>The methods, step by step\<close>

lemma ttlFromMinutes_eq:
  "ttlFromMinutes now (of_int k) = number_toString (now div 1000 + k * 60)"
proof -
  have "\<lfloor>(rat_of_int now / 1000) + rat_of_int k * 60\<rfloor>
        = \<lfloor>rat_of_int now / rat_of_int 1000 + rat_of_int (k * 60)\<rfloor>"
    by simp
  also have "\<dots> = \<lfloor>rat_of_int now / rat_of_int 1000\<rfloor> + k * 60"
    by (simp only: floor_add_int)
  also have "\<lfloor>rat_of_int now / rat_of_int 1000\<rfloor> = now div 1000"
    by (rule floor_divide_of_int_eq)
  finally show ?thesis by (simp add: ttlFromMinutes_def)
qed

lemma session_data_dbClient [simp]: "session_data (h\<lparr>dbClient := c\<rparr>) = session_data h"
  by (simp add: session_data_def)

lemma session_M_dbClient [simp]: "session_M (h\<lparr>dbClient := c\<rparr>) = session_M h"
  by (simp add: session_M_def)

lemma session_M_data: "session_M h = Some m \<longleftrightarrow> session_data h = Some (AV_M m)"
  by (auto simp: session_M_def split: option.splits attribute_value.splits)

lemma session_data_assign_M:
  "session_M h = Some m0 \<Longrightarrow> session_data (assign_M m h) = Some (AV_M m)"
  by (auto simp: session_M_def session_data_def assign_M_def split: option.splits)

lemma session_M_assign_M: "session_M h = Some m0 \<Longrightarrow> session_M (assign_M m h) = Some m"
  by (simp add: session_M_data session_data_assign_M)

lemma assign_M_fields [simp]:
  "sessionId (assign_M m h) = sessionId h"
  "sessionHash (assign_M m h) = sessionHash h"
  "dbClient (assign_M m h) = dbClient h"
  "ttl (assign_M m h) = ttl h"
  by (simp_all add: assign_M_def split: option.splits)

lemma getValue_cached:
  "session_M h = Some m \<Longrightarrow>
   getValue h key type = Inr (case m key of None \<Rightarrow> None | Some a \<Rightarrow> attribute_field a type)"
  by (simp add: getValue_def session_M_data)

lemma updateSession_success:
  assumes "updateSession e now sessionData h = (Inr u, h')"
  shows "truthy (sessionHash h)" and "session_M h \<noteq> None" and "session_M h' = Some sessionData"
  using assms
  by (auto simp: updateSession_def send_def session_M_assign_M split: if_splits sum.splits option.splits prod.splits)

lemma setValue_loaded:
  assumes "session_M h = Some m"
  shows "setValue e now key val h =
         updateSession e now (m(key \<mapsto> AV_S val)) (assign_M (m(key \<mapsto> AV_S val)) h)"
proof -
  from assms have "session_data h = Some (AV_M m)"
    by (simp add: session_M_data)
  then have "(if session_data h = None then init e h else (Inr None, h)) = (Inr None, h)"
    by simp
  with assms show ?thesis
    by (simp add: setValue_def)
qed

lemma updateSession_cache_kept:
  assumes "session_M h = Some m"
  shows "session_M (snd (updateSession e now sessionData h)) = Some m \<or>
         session_M (snd (updateSession e now sessionData h)) = Some sessionData"
  using assms
  by (auto simp: updateSession_def send_def session_M_assign_M split: sum.splits option.splits)

lemma updateSession_sent:
  assumes "truthy (sessionHash h)"
  shows "sent (dbClient (snd (updateSession e now sessionData h))) =
         sent (dbClient h) @ [updateItemCommand e now sessionData h]"
  using assms
  by (auto simp: updateSession_def send_def split: sum.splits option.splits)

lemma updateItemCommand_assign_M [simp]:
  "updateItemCommand e now sessionData (assign_M m h) = updateItemCommand e now sessionData h"
  by (simp add: updateItemCommand_def)

lemma getSessionId_cases:
  "getSessionId c = JsFalse \<or> getSessionId c = JsUndefined \<or>
   (\<exists>v. v \<noteq> [] \<and> getSessionId c = JsString v)"
  by (auto simp: getSessionId_def Let_def split: option.splits)

lemma getSessionId_absent:
  "getSessionId [] = JsFalse"
  "cookie_parse c ''session'' = Some [] \<Longrightarrow> getSessionId c = JsFalse"
  "c \<noteq> [] \<Longrightarrow> cookie_parse c ''session'' = None \<Longrightarrow> getSessionId c = JsUndefined"
  "cookie_parse c ''session'' = Some v \<Longrightarrow> v \<noteq> [] \<Longrightarrow> c \<noteq> [] \<Longrightarrow> getSessionId c = JsString v"
  by (simp_all add: getSessionId_def)

lemma constructor_fields:
  "sessionId (constructor e c client options) = getSessionId c"
  "sessionHash (constructor e c client options) =
     (if truthy (getSessionId c) then JsString (hash e (to_String (getSessionId c))) else JsFalse)"
  "session (constructor e c client options) = None"
  "dbClient (constructor e c client options) = client"
  "ttl (constructor e c client options) = (case options of None \<Rightarrow> 15 | Some opt \<Rightarrow> ttlInMinutes opt)"
  by (auto simp: constructor_def Let_def split: string_or_false.splits)

lemma init_without_key: "\<not> truthy (sessionHash h) \<Longrightarrow> init e h = (Inr None, h)"
  by (simp add: init_def)

lemma init_fields [simp]:
  "sessionHash (snd (init e h)) = sessionHash h"
  "sessionId (snd (init e h)) = sessionId h"
  "ttl (snd (init e h)) = ttl h"
  by (auto simp: init_def send_def split: sum.splits option.splits)

lemma init_sent:
  "sent (dbClient (snd (init e h))) =
     sent (dbClient h) @ (if truthy (sessionHash h) then [getItemCommand e h] else [])"
  by (auto simp: init_def send_def split: sum.splits option.splits)


lemma updateSession_fields [simp]:
  "sessionHash (snd (updateSession e now m h)) = sessionHash h"
  "sessionId (snd (updateSession e now m h)) = sessionId h"
  "ttl (snd (updateSession e now m h)) = ttl h"
  by (auto simp: updateSession_def send_def split: sum.splits option.splits)

lemma updateSession_sent_any:
  "sent (dbClient (snd (updateSession e now m h))) =
     sent (dbClient h) @ (if truthy (sessionHash h) then [updateItemCommand e now m h] else [])"
  by (auto simp: updateSession_def send_def split: sum.splits option.splits)

lemma createSession_fields [simp]:
  "sessionHash (snd (createSession e uuid now m h)) = JsString (hash e uuid)"
  "ttl (snd (createSession e uuid now m h)) = ttl h"
  "session (snd (createSession e uuid now m h)) = session h"
  by (auto simp: createSession_def send_def Let_def split: sum.splits)


text \<open>
  A \<open>createSession\<close> whose put the store rejects has already replaced the hash, and leaves
  the session id as it was.
\<close>

lemma createSession_rejected:
  assumes "respond (dbClient h) (sent (dbClient h))
             (putItemCommand e now m (h\<lparr>sessionHash := JsString (hash e uuid)\<rparr>)) = Inl err"
  shows "createSession e uuid now m h =
           (Inl err,
            h\<lparr>sessionHash := JsString (hash e uuid),
              dbClient := (dbClient h)\<lparr>sent := sent (dbClient h) @
                [putItemCommand e now m (h\<lparr>sessionHash := JsString (hash e uuid)\<rparr>)]\<rparr>\<rparr>)"
  using assms by (simp add: createSession_def send_def Let_def)

lemma createSession_sent:
  "sent (dbClient (snd (createSession e uuid now m h))) =
     sent (dbClient h) @ [putItemCommand e now m (h\<lparr>sessionHash := JsString (hash e uuid)\<rparr>)]"
  by (auto simp: createSession_def send_def Let_def split: sum.splits)

text \<open>
  The three ways \<open>setValue\<close> ends: the load it starts with fails; there is no mapping to
  write into; or it goes on into \<open>updateSession\<close> with the merged mapping.
\<close>

lemma setValue_steps:
  fixes e now key val h
  defines "h1 \<equiv> (if session_data h = None then snd (init e h) else h)"
  obtains (load_failed) err where "session_data h = None" and "fst (init e h) = Inl err"
      and "setValue e now key val h = (Inl err, h1)"
    | (no_mapping) "session_M h1 = None" and "setValue e now key val h = (Inl TypeError, h1)"
    | (update) m where "session_M h1 = Some m"
      and "setValue e now key val h =
             updateSession e now (m(key \<mapsto> AV_S val)) (assign_M (m(key \<mapsto> AV_S val)) h1)"
proof (cases "session_data h = None")
  case True
  obtain r h' where i: "init e h = (r, h')" by force
  with True have h1: "h1 = h'" by (simp add: h1_def)
  show ?thesis
  proof (cases r)
    case (Inl err)
    with True i h1 have "setValue e now key val h = (Inl err, h1)"
      by (simp add: setValue_def)
    with True i Inl show ?thesis by (auto intro: load_failed)
  next
    case (Inr out)
    show ?thesis
    proof (cases "session_M h1")
      case None
      with True i h1 Inr have "setValue e now key val h = (Inl TypeError, h1)"
        by (simp add: setValue_def)
      with None show ?thesis by (rule no_mapping)
    next
      case (Some m)
      with True i h1 Inr have "setValue e now key val h =
             updateSession e now (m(key \<mapsto> AV_S val)) (assign_M (m(key \<mapsto> AV_S val)) h1)"
        by (simp add: setValue_def)
      with Some show ?thesis by (rule update)
    qed
  qed
next
  case False
  then obtain d where d: "session_data h = Some d" by auto
  then have h1: "h1 = h" by (simp add: h1_def)
  show ?thesis
  proof (cases "session_M h1")
    case None
    with d h1 have "setValue e now key val h = (Inl TypeError, h1)"
      by (simp add: setValue_def)
    with None show ?thesis by (rule no_mapping)
  next
    case (Some m)
    with d h1 have "setValue e now key val h =
           updateSession e now (m(key \<mapsto> AV_S val)) (assign_M (m(key \<mapsto> AV_S val)) h1)"
      by (simp add: setValue_def)
    with Some show ?thesis by (rule update)
  qed
qed

lemma setValue_fields [simp]:
  "sessionHash (snd (setValue e now key val h)) = sessionHash h"
  "sessionId (snd (setValue e now key val h)) = sessionId h"
  "ttl (snd (setValue e now key val h)) = ttl h"
  by (cases rule: setValue_steps [of h e now key val]; simp)+

lemma updateItemCommand_same:
  "sessionHash h' = sessionHash h \<Longrightarrow> ttl h' = ttl h \<Longrightarrow>
   updateItemCommand e now m h' = updateItemCommand e now m h"
  by (simp add: updateItemCommand_def)

text \<open>The commands one \<open>setValue\<close> sends: gets and updates built from the handle's key and ttl.\<close>

lemma setValue_sent:
  "\<exists>new. sent (dbClient (snd (setValue e now key val h))) = sent (dbClient h) @ new \<and>
     (\<forall>cmd\<in>set new. truthy (sessionHash h) \<and>
        (cmd = getItemCommand e h \<or> (\<exists>m. cmd = updateItemCommand e now m h)))"
proof -
  define h1 where "h1 = (if session_data h = None then snd (init e h) else h)"
  have load: "\<exists>new. sent (dbClient h1) = sent (dbClient h) @ new \<and>
     (\<forall>cmd\<in>set new. truthy (sessionHash h) \<and> cmd = getItemCommand e h)"
    by (simp add: h1_def init_sent)
  then obtain new where new: "sent (dbClient h1) = sent (dbClient h) @ new"
    "\<forall>cmd\<in>set new. truthy (sessionHash h) \<and> cmd = getItemCommand e h" by blast
  have same: "sessionHash h1 = sessionHash h" "ttl h1 = ttl h"
    by (simp_all add: h1_def)
  have upd: "updateItemCommand e now m h1 = updateItemCommand e now m h" for m
    by (rule updateItemCommand_same) (simp_all add: same)
  show ?thesis
  proof (cases rule: setValue_steps [of h e now key val])
    case (load_failed err)
    with new show ?thesis unfolding h1_def [symmetric] by auto
  next
    case no_mapping
    with new show ?thesis unfolding h1_def [symmetric] by auto
  next
    case (update m)
    let ?u = "if truthy (sessionHash h) then [updateItemCommand e now (m(key \<mapsto> AV_S val)) h] else []"
    have "sent (dbClient (snd (setValue e now key val h))) = sent (dbClient h) @ (new @ ?u)"
      using update(2) unfolding h1_def [symmetric]
      by (simp add: updateSession_sent_any upd new(1) same)
    moreover have "\<forall>cmd\<in>set (new @ ?u). truthy (sessionHash h) \<and>
        (cmd = getItemCommand e h \<or> (\<exists>m. cmd = updateItemCommand e now m h))"
      using new(2) by auto
    ultimately show ?thesis by blast
  qed
qed

lemma setValue_without_key:
  assumes "\<not> truthy (sessionHash h)" and "session h = None"
  shows "setValue e now key val h = (Inl TypeError, h)"
  using assms by (simp add: setValue_def session_data_def session_M_def init_without_key)

subsection \<open>The commands of a sequence of calls\<close>

lemma command_keys [simp]:
  "command_key (getItemCommand e h) = Some (AV_S (to_String (sessionHash h)))"
  "command_key (updateItemCommand e now m h) = Some (AV_S (to_String (sessionHash h)))"
  "command_key (putItemCommand e now m h) = Some (AV_S (to_String (sessionHash h)))"
  "is_get (getItemCommand e h)"
  by (simp_all add: getItemCommand_def updateItemCommand_def putItemCommand_def)

lemma generated_Cons: "generated (c # cs) = generated [c] \<union> generated cs"
  by (cases c) auto

lemma perform_keys:
  assumes "truthy (sessionHash h) \<longrightarrow> (\<exists>t\<in>T. sessionHash h = JsString (hash e t))"
  shows "(truthy (sessionHash (perform e c h)) \<longrightarrow>
            (\<exists>t\<in>T \<union> generated [c]. sessionHash (perform e c h) = JsString (hash e t))) \<and>
         (\<exists>new. sent (dbClient (perform e c h)) = sent (dbClient h) @ new \<and>
            (\<forall>cmd\<in>set new. \<exists>t\<in>T \<union> generated [c]. command_key cmd = Some (AV_S (hash e t))))"
proof (cases c)
  case Init
  with assms show ?thesis by (auto simp: init_sent)
next
  case (CreateSession uuid now m)
  then show ?thesis by (auto simp: createSession_sent)
next
  case (UpdateSession now m)
  with assms show ?thesis by (auto simp: updateSession_sent_any)
next
  case (SetValue now key val)
  from setValue_sent [of e now key val h] obtain new
    where new: "sent (dbClient (snd (setValue e now key val h))) = sent (dbClient h) @ new"
      "\<forall>cmd\<in>set new. truthy (sessionHash h) \<and>
        (cmd = getItemCommand e h \<or> (\<exists>m. cmd = updateItemCommand e now m h))" by blast
  have "\<exists>t\<in>T \<union> generated [c]. command_key cmd = Some (AV_S (hash e t))"
    if "cmd \<in> set new" for cmd
  proof -
    from new(2) that have k: "truthy (sessionHash h)"
      and "cmd = getItemCommand e h \<or> (\<exists>m. cmd = updateItemCommand e now m h)" by auto
    then have "command_key cmd = Some (AV_S (to_String (sessionHash h)))" by auto
    moreover from assms k obtain t where "t \<in> T" "sessionHash h = JsString (hash e t)" by auto
    ultimately show ?thesis by auto
  qed
  then have "\<forall>cmd\<in>set new. \<exists>t\<in>T \<union> generated [c]. command_key cmd = Some (AV_S (hash e t))"
    by blast
  with new(1) assms SetValue show ?thesis by auto
qed

lemma run_keys:
  assumes "truthy (sessionHash h) \<longrightarrow> (\<exists>t\<in>T. sessionHash h = JsString (hash e t))"
  shows "\<exists>new. sent (dbClient (run e cs h)) = sent (dbClient h) @ new \<and>
           (\<forall>cmd\<in>set new. \<exists>t\<in>T \<union> generated cs. command_key cmd = Some (AV_S (hash e t)))"
  using assms
proof (induction cs arbitrary: h T)
  case Nil
  then show ?case by simp
next
  case (Cons c cs)
  from perform_keys [OF Cons.prems, of c]
  obtain new1 where inv: "truthy (sessionHash (perform e c h)) \<longrightarrow>
            (\<exists>t\<in>T \<union> generated [c]. sessionHash (perform e c h) = JsString (hash e t))"
    and new1: "sent (dbClient (perform e c h)) = sent (dbClient h) @ new1"
      "\<forall>cmd\<in>set new1. \<exists>t\<in>T \<union> generated [c]. command_key cmd = Some (AV_S (hash e t))"
    by blast
  from Cons.IH [OF inv] obtain new2
    where new2: "sent (dbClient (run e cs (perform e c h))) = sent (dbClient (perform e c h)) @ new2"
      "\<forall>cmd\<in>set new2. \<exists>t\<in>T \<union> generated [c] \<union> generated cs. command_key cmd = Some (AV_S (hash e t))"
    by blast
  have gen: "T \<union> generated (c # cs) = T \<union> generated [c] \<union> generated cs"
    using generated_Cons [of c cs] by auto
  have "sent (dbClient (run e (c # cs) h)) = sent (dbClient h) @ (new1 @ new2)"
    using new1(1) new2(1) by simp
  moreover have "\<forall>cmd\<in>set (new1 @ new2). \<exists>t\<in>T \<union> generated (c # cs).
      command_key cmd = Some (AV_S (hash e t))"
    using new1(2) new2(2) unfolding gen by auto
  ultimately show ?case by blast
qed

lemma constructor_key:
  "truthy (sessionHash (constructor e cookieString client options)) \<longrightarrow>
     (\<exists>t\<in>supplied cookieString.
        sessionHash (constructor e cookieString client options) = JsString (hash e t))"
  using getSessionId_cases [of cookieString]
  by (auto simp: constructor_fields supplied_def)

lemma perform_ttl [simp]: "ttl (perform e c h) = ttl h"
  by (cases c) simp_all

lemma run_ttl [simp]: "ttl (run e cs h) = ttl h"
  by (induction cs arbitrary: h) simp_all

text \<open>
  Every key sent is the digest of a token that the cookie supplied or that a
  \<open>createSession\<close> generated: the field \<open>sessionHash\<close> is never set to anything else.
\<close>

lemma store_keys_are_digests:
  "\<exists>new. sent (dbClient (run e cs (constructor e cookieString client options))) = sent client @ new \<and>
     (\<forall>cmd\<in>set new. \<exists>t\<in>supplied cookieString \<union> generated cs.
        command_key cmd = Some (AV_S (sha256_base64 e t)))"
proof -
  have "\<exists>new. sent (dbClient (run e cs (constructor e cookieString client options))) =
          sent (dbClient (constructor e cookieString client options)) @ new \<and>
     (\<forall>cmd\<in>set new. \<exists>t\<in>supplied cookieString \<union> generated cs.
        command_key cmd = Some (AV_S (hash e t)))"
    by (rule run_keys [OF constructor_key])
  then show ?thesis
    by (simp add: constructor_fields hash_def)
qed





subsection \<open>The fixtures, evaluated\<close>

lemma getSessionId_12345: "getSessionId ''session=12345;'' = JsString ''12345''"
  by code_simp

lemma getSessionId_empty: "getSessionId [] = JsFalse"
  by (simp add: getSessionId_def)

lemma getSessionId_empty_value: "getSessionId ''session=;'' = JsFalse"
  by code_simp


lemma hash_test_env: "hash test_env s = ''sha256:'' @ s"
  by (simp add: hash_def test_env_def)

lemma table_test_env: "SESSION_TABLE test_env = Some ''mijnuitkering-sessions''"
  by (simp add: test_env_def)

lemma new_request_eval:
  "new_request = \<lparr>sessionId = JsString ''12345'', sessionHash = JsString ''sha256:12345'',
                   session = None, dbClient = ddbMock, state = None, ttl = 15\<rparr>"
  by (simp add: new_request_def constructor_def getSessionId_12345 hash_test_env)

lemma loaded_eval:
  "loaded = new_request\<lparr>session := Some getItemOutput,
                         dbClient := ddbMock\<lparr>sent := [getItemCommand test_env new_request]\<rparr>\<rparr>"
  by (simp add: loaded_def init_def send_def new_request_eval ddbMock_def getItemOutput_def)

lemma loaded_facts:
  "truthy (sessionHash loaded)"
  "session_M loaded = Some [''loggedin'' \<mapsto> AV_BOOL True, ''bsn'' \<mapsto> AV_S ''12345678'',
                            ''state'' \<mapsto> AV_S ''12345'']"
  "sent (dbClient loaded) = [getItemCommand test_env new_request]"
  "respond (dbClient loaded) = respond ddbMock"
  "ttl loaded = 15"
  "sessionHash loaded = JsString ''sha256:12345''"
  by (simp_all add: loaded_eval new_request_eval session_M_def session_data_def getItemOutput_def)

lemma loaded_run:
  "run test_env [Init] (constructor test_env ''session=12345;'' ddbMock None) = loaded"
  by (simp add: loaded_def new_request_def)




lemma rejected_eval:
  "rejected = \<lparr>sessionId = JsString ''12345'', sessionHash = JsString ''sha256:12345'',
                session = None, dbClient = failing_writes, state = None, ttl = 15\<rparr>"
  by (simp add: rejected_def constructor_def getSessionId_12345 hash_test_env)

lemma thirty_minutes_eval:
  "thirty_minutes = \<lparr>sessionId = JsString ''12345'', sessionHash = JsString ''sha256:12345'',
                      session = None, dbClient = ddbMock, state = None, ttl = 30\<rparr>"
  by (simp add: thirty_minutes_def constructor_def getSessionId_12345 hash_test_env)

lemma fractional_eval:
  "fractional = \<lparr>sessionId = JsFalse, sessionHash = JsFalse, session = None,
                  dbClient = ddbMock, state = None, ttl = 1 / 100\<rparr>"
  by (simp add: fractional_def constructor_def getSessionId_empty)

text \<open>The clock reading of the fixtures in seconds, with fifteen and with thirty minutes added.\<close>

lemma timestamp_15: "number_toString (timestamp div 1000 + 15 * 60) = ''1700000900''"
  by (simp add: timestamp_def number_toString_def decimal.simps digit_char_def)

lemma timestamp_30: "number_toString (timestamp div 1000 + 30 * 60) = ''1700001800''"
  by (simp add: timestamp_def number_toString_def decimal.simps digit_char_def)

lemma timestamp_fraction: "ttlFromMinutes timestamp (1 / 100) = ''1700000000''"
proof -
  have "rat_of_int timestamp / 1000 + 1 / 100 * 60 = rat_of_int 1700000000723 / rat_of_int 1000"
    by (simp add: timestamp_def)
  then have "\<lfloor>rat_of_int timestamp / 1000 + 1 / 100 * 60\<rfloor> = 1700000000723 div 1000"
    by (simp only: floor_divide_of_int_eq)
  then show ?thesis
    by (simp add: ttlFromMinutes_def number_toString_def decimal.simps digit_char_def)
qed

text \<open>The mappings of the fixtures have own entries only.\<close>

lemma own_entries_test: "own_entries [''test'' \<mapsto> AV_S v] = [''test'' \<mapsto> AV_S v]"
  by (rule ext) (simp add: own_entries_def)

lemma own_entries_loaded:
  "own_entries ([''loggedin'' \<mapsto> AV_BOOL True, ''bsn'' \<mapsto> AV_S ''12345678'',
                 ''state'' \<mapsto> AV_S ''12345''](''__proto__'' \<mapsto> AV_S v)) =
   [''loggedin'' \<mapsto> AV_BOOL True, ''bsn'' \<mapsto> AV_S ''12345678'', ''state'' \<mapsto> AV_S ''12345'']"
  by (rule ext) (simp add: own_entries_def)

lemma own_entries_state: "own_entries [''state'' \<mapsto> AV_S v] = [''state'' \<mapsto> AV_S v]"
  by (rule ext) (simp add: own_entries_def)

lemma getSessionId_zero: "getSessionId ''session=0'' = JsString ''0''"
  by code_simp

lemma string_is_zero_0: "string_is_zero ''0''"
  by code_simp

lemma serialize_empty:
  "cookie_serialize ''session'' [] \<lparr>httpOnly = True, secure = True, path = Some ''/''\<rparr> =
     Inr ''session=; Path=/; HttpOnly; Secure''"
  by code_simp

lemma getSessionId_cleared: "getSessionId ''session=; Path=/; HttpOnly; Secure'' = JsFalse"
  by code_simp

lemma getSessionId_foo: "getSessionId ''foo=bar'' = JsUndefined"
  by code_simp

lemma serialize_undefined:
  "cookie_serialize ''session'' ''undefined'' \<lparr>httpOnly = True, secure = True, path = Some ''/''\<rparr> =
     Inr ''session=undefined; Path=/; HttpOnly; Secure''"
  by code_simp

lemma serialize_12345:
  "cookie_serialize ''session'' ''12345'' \<lparr>httpOnly = True, secure = True, path = Some ''/''\<rparr> =
     Inr ''session=12345; Path=/; HttpOnly; Secure''"
  by code_simp

lemma string_is_zero_12345: "\<not> string_is_zero ''12345''"
  by code_simp

lemma getSessionId_issued: "getSessionId ''session=12345; Path=/; HttpOnly; Secure'' = JsString ''12345''"
  by code_simp

text \<open>The cookie of the unit tests' token comes back as it went out.\<close>

lemma cookie_round_trip_12345:
  "getCookie (constructor test_env ''session=12345;'' ddbMock None) =
     Inr ''session=12345; Path=/; HttpOnly; Secure'' \<and>
   getSessionId ''session=12345; Path=/; HttpOnly; Secure'' = JsString ''12345''"
  by (simp add: getSessionId_12345 getSessionId_issued getCookie_def constructor_fields
      string_is_zero_12345 serialize_12345)

subsection \<open>The cookie of a token of unreserved characters\<close>

text \<open>
  For a token made of the characters that \<^verbatim>\<open>encodeURIComponent\<close> leaves alone (letters,
  digits and \<^verbatim>\<open>-_.!~*'()\<close>; every generated UUID is one), the cookie that
  \<open>getCookie\<close> emits is parsed back to the token, provided the token does not convert to
  the number zero.
\<close>

lemma unreserved_printable:
  assumes "uri_unreserved c"
  shows "32 \<le> (of_char c :: nat) \<and> (of_char c :: nat) \<le> 126"
  using assms by (auto simp: uri_unreserved_def Let_def)

lemma unreserved_not_special:
  assumes "uri_unreserved c"
  shows "c \<noteq> CHR '';''" "c \<noteq> CHR ''=''" "c \<noteq> CHR ''%''" "c \<noteq> CHR 0x22"
  using assms by (auto simp: uri_unreserved_def Let_def)

lemma encodeURIComponent_unreserved:
  "\<forall>c\<in>set T. uri_unreserved c \<Longrightarrow> encodeURIComponent T = T"
  by (induction T) (simp_all add: encodeURIComponent_def)

lemma field_chars_unreserved: "\<forall>c\<in>set T. uri_unreserved c \<Longrightarrow> field_chars T"
proof (induction T)
  case Nil
  then show ?case by simp
next
  case (Cons c T)
  then have "uri_unreserved c" by simp
  from unreserved_printable [OF this] Cons show ?case by (simp add: Let_def)
qed

lemma split_on_append: "c \<notin> set s \<Longrightarrow> split_on c (s @ c # r) = s # split_on c r"
  by (induction s) auto

lemma strip_front_unreserved:
  assumes "uri_unreserved c"
  shows "strip white_space (c # cs) = c # cs"
proof -
  have "\<not> (w \<noteq> [] \<and> take (length w) (c # cs) = w)" if "w \<in> set white_space" for w
    using that assms by (auto simp: white_space_def uri_unreserved_def Let_def)
  then have "List.find (\<lambda>w. w \<noteq> [] \<and> take (length w) (c # cs) = w) white_space = None"
    by (simp add: find_None_iff)
  then show ?thesis by (simp add: strip.simps)
qed

lemma strip_back_unreserved:
  assumes "uri_unreserved c"
  shows "strip (map rev white_space) (c # cs) = c # cs"
proof -
  have "\<not> (w \<noteq> [] \<and> take (length w) (c # cs) = w)" if "w \<in> set (map rev white_space)" for w
    using that assms by (auto simp: white_space_def uri_unreserved_def Let_def)
  then have "List.find (\<lambda>w. w \<noteq> [] \<and> take (length w) (c # cs) = w) (map rev white_space) = None"
    unfolding find_None_iff by blast
  then show ?thesis by (simp add: strip.simps)
qed

lemma trim_unreserved:
  assumes "\<forall>c\<in>set T. uri_unreserved c"
  shows "trim T = T"
proof (cases T)
  case Nil
  then show ?thesis by (simp add: trim_def strip.simps white_space_def)
next
  case (Cons c cs)
  with assms have 1: "strip white_space T = T"
    by (simp add: strip_front_unreserved)
  from Cons obtain d ds where rev: "rev T = d # ds" by (cases "rev T") auto
  then have "d \<in> set T" by (metis list.set_intros(1) set_rev)
  with assms have "uri_unreserved d" by simp
  then have "strip (map rev white_space) (rev T) = rev T"
    unfolding rev by (rule strip_back_unreserved)
  with 1 show ?thesis by (simp add: trim_def)
qed

lemma trim_session: "trim ''session'' = ''session''"
  by code_simp

lemma cookie_pair_session:
  assumes "T \<noteq> []" and "\<forall>c\<in>set T. uri_unreserved c"
  shows "cookie_pair (''session='' @ T) = Some (''session'', T)"
proof -
  from assms obtain c cs where T: "T = c # cs" by (cases T) auto
  with assms have c: "uri_unreserved c" by simp
  have "CHR ''%'' \<notin> set T"
    using assms(2) unreserved_not_special(3) by blast
  then have "tryDecode T = T" by (simp add: tryDecode_def)
  moreover have "(case T of [] \<Rightarrow> T | c # cs \<Rightarrow> if c = CHR 0x22 then drop_last_unit cs else T) = T"
    using unreserved_not_special(4) [OF c] by (simp add: T)
  ultimately show ?thesis
    by (simp add: cookie_pair_def trim_session trim_unreserved [OF assms(2)])
qed

lemma cookie_parse_issued:
  assumes "T \<noteq> []" and "\<forall>c\<in>set T. uri_unreserved c"
  shows "cookie_parse (''session='' @ T @ ''; Path=/; HttpOnly; Secure'') ''session'' = Some T"
proof -
  have "CHR '';'' \<notin> set (''session='' @ T)"
    using assms(2) unreserved_not_special(1) by auto
  from split_on_append [OF this, of "'' Path=/; HttpOnly; Secure''"]
  have "split_on CHR '';'' (''session='' @ T @ ''; Path=/; HttpOnly; Secure'') =
          (''session='' @ T) # split_on CHR '';'' '' Path=/; HttpOnly; Secure''"
    by simp
  then show ?thesis
    by (simp add: cookie_parse_def map_filter_simps cookie_pair_session [OF assms, simplified]
        del: split_on.simps)
qed

lemma cookie_round_trip_unreserved:
  assumes "T \<noteq> []" and "\<forall>c\<in>set T. uri_unreserved c" and "\<not> string_is_zero T"
    and "sessionId h = JsString T"
  shows "getCookie h = Inr (''session='' @ T @ ''; Path=/; HttpOnly; Secure'') \<and>
         getSessionId (''session='' @ T @ ''; Path=/; HttpOnly; Secure'') = JsString T"
proof -
  have "field_content T"
    using assms(1,2) by (simp add: field_content_def field_chars_unreserved)
  moreover have "field_content ''session''" "field_content ''/''"
    by (simp_all add: field_content_def Let_def)
  ultimately have "cookie_serialize ''session'' T \<lparr>httpOnly = True, secure = True, path = Some ''/''\<rparr> =
      Inr (''session='' @ T @ ''; Path=/; HttpOnly; Secure'')"
    by (simp add: cookie_serialize_def Let_def encodeURIComponent_unreserved [OF assms(2)])
  then have "getCookie h = Inr (''session='' @ T @ ''; Path=/; HttpOnly; Secure'')"
    using assms(3,4) by (simp add: getCookie_def)
  moreover have "getSessionId (''session='' @ T @ ''; Path=/; HttpOnly; Secure'') = JsString T"
    using assms(1)
    by (simp add: getSessionId_def Let_def cookie_parse_issued [OF assms(1,2), simplified])
  ultimately show ?thesis by simp
qed

lemma uuid1_unreserved: "\<forall>c\<in>set uuid1. uri_unreserved c"
  unfolding uuid1_def by code_simp

lemma uuid1_not_zero: "\<not> string_is_zero uuid1"
  unfolding uuid1_def by code_simp

subsection \<open>What \<open>setValue\<close> caches and what it sends\<close>

text \<open>
  On a loaded handle with a key, \<open>setValue\<close> leaves the new entry in the cached mapping,
  leaves the entries that were there under other names as they were, and sends one command:
  the update with the own entries of the merged mapping. For every name but
  \<^verbatim>\<open>__proto__\<close> the new entry is among them.
\<close>

lemma setValue_then_getValue:
  assumes "truthy (sessionHash h)" and "session_M h = Some m"
  shows "getValue (snd (setValue e now key val h)) key ''S'' = Inr (Some (VString val)) \<and>
         (\<forall>key' type. key' \<noteq> key \<longrightarrow> m key' \<noteq> None \<longrightarrow>
            getValue (snd (setValue e now key val h)) key' type = getValue h key' type) \<and>
         sent (dbClient (snd (setValue e now key val h))) =
           sent (dbClient h) @
             [UpdateItemCommand (SESSION_TABLE e)
                [''sessionid'' \<mapsto> AV_S (to_String (sessionHash h))]
                ''SET #ttl = :ttl, #data = :data''
                [''#ttl'' \<mapsto> ''ttl'', ''#data'' \<mapsto> ''data'']
                ['':ttl'' \<mapsto> AV_N (ttlFromMinutes now (ttl h)),
                 '':data'' \<mapsto> AV_M (own_entries (m(key \<mapsto> AV_S val)))]] \<and>
         (key \<noteq> ''__proto__'' \<longrightarrow> own_entries (m(key \<mapsto> AV_S val)) key = Some (AV_S val)) \<and>
         own_entries (m(''__proto__'' \<mapsto> AV_S val)) ''__proto__'' = None"
proof -
  let ?m = "m(key \<mapsto> AV_S val)"
  let ?h = "assign_M ?m h"
  have sv: "setValue e now key val h = updateSession e now ?m ?h"
    by (rule setValue_loaded [OF assms(2)])
  have cached: "session_M ?h = Some ?m"
    by (rule session_M_assign_M [OF assms(2)])
  from updateSession_cache_kept [OF cached, of e now ?m]
  have after: "session_M (snd (setValue e now key val h)) = Some ?m"
    by (auto simp: sv)
  have key: "truthy (sessionHash ?h)" using assms(1) by simp
  have log: "sent (dbClient (snd (setValue e now key val h))) =
             sent (dbClient h) @ [updateItemCommand e now ?m h]"
    using updateSession_sent [OF key, of e now ?m] by (simp add: sv)
  show ?thesis
    by (simp add: getValue_cached [OF after] getValue_cached [OF assms(2)] log
        updateItemCommand_def own_entries_def)
qed

subsection \<open>Claims\<close>




text \<open>
  C2. On a handle that has a key but no cached attribute mapping, \<open>updateSession\<close> fails
  for every mapping, and it fails after the write: the update command has been sent to
  the store and nothing else of the handle has changed. The error is the store's when the
  store rejects the write, and the complaint about the missing session otherwise.
\<close>

theorem updateSession_without_cache:
  assumes "truthy (sessionHash h)" and "session_M h = None"
  shows "updateSession e now sessionData h =
           (Inl (case respond (dbClient h) (sent (dbClient h)) (updateItemCommand e now sessionData h) of
                   Inl err \<Rightarrow> err
                 | Inr out \<Rightarrow> Error ''Session had no data before, was this a valid session?''),
            h\<lparr>dbClient := (dbClient h)\<lparr>sent := sent (dbClient h) @ [updateItemCommand e now sessionData h]\<rparr>\<rparr>)"
  using assms by (simp add: updateSession_def send_def split: sum.splits)

theorem updateSession_without_cache_witness:
  "fst (updateSession test_env timestamp [''state'' \<mapsto> AV_S ''newState''] new_request)
     = Inl (Error ''Session had no data before, was this a valid session?'') \<and>
   sent (dbClient (snd (updateSession test_env timestamp [''state'' \<mapsto> AV_S ''newState''] new_request)))
     = [updateItemCommand test_env timestamp [''state'' \<mapsto> AV_S ''newState''] new_request]"
proof -
  have 1: "truthy (sessionHash new_request)" by (simp add: new_request_eval)
  have 2: "session_M new_request = None" by (simp add: new_request_eval session_M_def session_data_def)
  from updateSession_without_cache [OF 1 2, of test_env timestamp "[''state'' \<mapsto> AV_S ''newState'']"]
  show ?thesis by (simp add: new_request_eval ddbMock_def)
qed

text \<open>
  C3. On a handle constructed from a cookie header that yields no session id (empty, without
  a \<open>session\<close> cookie, or with an empty one), \<open>updateSession\<close> and \<open>setValue\<close> fail and
  return the handle as it was: its client is the one given to the constructor, with nothing
  sent. The handle being unchanged, the same holds for every later such call.
\<close>

theorem no_key_no_store_call:
  assumes "\<not> truthy (getSessionId cookieString)"
  shows "updateSession e now sessionData (constructor e cookieString client options) =
           (Inl (Error ''no sessionid, cannot update empty session''),
            constructor e cookieString client options) \<and>
         setValue e now key val (constructor e cookieString client options) =
           (Inl TypeError, constructor e cookieString client options) \<and>
         dbClient (constructor e cookieString client options) = client"
proof -
  let ?h = "constructor e cookieString client options"
  from assms have key: "\<not> truthy (sessionHash ?h)"
    by (simp add: constructor_fields)
  have "session ?h = None" by (simp add: constructor_fields)
  with key show ?thesis
    by (simp add: setValue_without_key updateSession_def constructor_fields)
qed

theorem no_key_no_store_call_witness:
  "\<not> truthy (getSessionId ''session=;'') \<and>
   fst (updateSession test_env timestamp [''loggedin'' \<mapsto> AV_BOOL False]
          (constructor test_env ''session=;'' ddbMock None))
     = Inl (Error ''no sessionid, cannot update empty session'') \<and>
   sent (dbClient (snd (updateSession test_env timestamp [''loggedin'' \<mapsto> AV_BOOL False]
          (constructor test_env ''session=;'' ddbMock None)))) = [] \<and>
   fst (setValue test_env timestamp ''bsn'' ''123'' (constructor test_env ''session=;'' ddbMock None))
     = Inl TypeError \<and>
   sent (dbClient (snd (setValue test_env timestamp ''bsn'' ''123''
          (constructor test_env ''session=;'' ddbMock None)))) = []"
proof -
  have h: "\<not> truthy (getSessionId ''session=;'')"
    by (simp add: getSessionId_empty_value)
  from no_key_no_store_call [OF h, of test_env _ _ ddbMock None] h show ?thesis
    by (simp add: ddbMock_def)
qed

text \<open>
  C4 fails on the code after a \<open>createSession\<close> whose put the store rejects. The handle
  built from \<^verbatim>\<open>session=12345;\<close> still has the session id \<open>12345\<close>, and \<open>getCookie\<close> still
  emits it, but \<open>createSession\<close> had replaced the hash before it sent: the get of a later
  \<open>init\<close> and the update of a later \<open>updateSession\<close> address the digest of the generated
  token, which the handle does not hold, and not the digest of \<open>12345\<close>. (Every key sent
  is the digest of some supplied or generated token, see \<open>store_keys_are_digests\<close>.)
\<close>

theorem rejected_put_changes_key:
  "fst (createSession test_env uuid1 timestamp [''test'' \<mapsto> AV_S ''ok''] rejected)
     = Inl (StoreError ''ThrottlingException'') \<and>
   sessionId (snd (createSession test_env uuid1 timestamp [''test'' \<mapsto> AV_S ''ok''] rejected))
     = JsString ''12345'' \<and>
   getCookie (snd (createSession test_env uuid1 timestamp [''test'' \<mapsto> AV_S ''ok''] rejected))
     = Inr ''session=12345; Path=/; HttpOnly; Secure'' \<and>
   sha256_base64 test_env ''12345'' = ''sha256:12345'' \<and>
   sent (dbClient (snd (init test_env
       (snd (createSession test_env uuid1 timestamp [''test'' \<mapsto> AV_S ''ok''] rejected)))))
     = [PutItemCommand (Some ''mijnuitkering-sessions'')
          [''sessionid'' \<mapsto> AV_S ''sha256:3b241101-e2bb-4255-8caf-4136c566a962'',
           ''data'' \<mapsto> AV_M [''test'' \<mapsto> AV_S ''ok''],
           ''ttl'' \<mapsto> AV_N ''1700000900''],
        GetItemCommand (Some ''mijnuitkering-sessions'')
          [''sessionid'' \<mapsto> AV_S ''sha256:3b241101-e2bb-4255-8caf-4136c566a962'']] \<and>
   sent (dbClient (snd (updateSession test_env timestamp [''state'' \<mapsto> AV_S ''newState'']
       (snd (createSession test_env uuid1 timestamp [''test'' \<mapsto> AV_S ''ok''] rejected)))))
     = [PutItemCommand (Some ''mijnuitkering-sessions'')
          [''sessionid'' \<mapsto> AV_S ''sha256:3b241101-e2bb-4255-8caf-4136c566a962'',
           ''data'' \<mapsto> AV_M [''test'' \<mapsto> AV_S ''ok''],
           ''ttl'' \<mapsto> AV_N ''1700000900''],
        UpdateItemCommand (Some ''mijnuitkering-sessions'')
          [''sessionid'' \<mapsto> AV_S ''sha256:3b241101-e2bb-4255-8caf-4136c566a962'']
          ''SET #ttl = :ttl, #data = :data''
          [''#ttl'' \<mapsto> ''ttl'', ''#data'' \<mapsto> ''data'']
          ['':ttl'' \<mapsto> AV_N ''1700000900'',
           '':data'' \<mapsto> AV_M [''state'' \<mapsto> AV_S ''newState'']]]"
proof -
  let ?m = "[''test'' \<mapsto> AV_S ''ok'']"
  let ?h = "rejected\<lparr>sessionHash := JsString (hash test_env uuid1)\<rparr>"
  let ?put = "putItemCommand test_env timestamp ?m ?h"
  have expiry: "ttlFromMinutes timestamp 15 = ''1700000900''"
    using ttlFromMinutes_eq [of timestamp 15] unfolding timestamp_15 by simp
  have "respond (dbClient rejected) (sent (dbClient rejected)) ?put
          = Inl (StoreError ''ThrottlingException'')"
    by (simp add: rejected_eval failing_writes_def putItemCommand_def)
  from createSession_rejected [OF this]
  have c: "createSession test_env uuid1 timestamp ?m rejected =
      (Inl (StoreError ''ThrottlingException''),
       ?h\<lparr>dbClient := failing_writes\<lparr>sent := [?put]\<rparr>\<rparr>)"
    by (simp add: rejected_eval failing_writes_def)
  have cookie: "getCookie (?h\<lparr>dbClient := failing_writes\<lparr>sent := [?put]\<rparr>\<rparr>)
      = Inr ''session=12345; Path=/; HttpOnly; Secure''"
    by (simp add: getCookie_def rejected_eval string_is_zero_12345 serialize_12345)
  have digest: "sha256_base64 test_env ''12345'' = ''sha256:12345''"
    by (simp add: test_env_def)
  show ?thesis
    unfolding c
    by (simp add: cookie digest)
      (simp add: putItemCommand_def own_entries_test rejected_eval hash_test_env uuid1_def init_sent updateSession_sent_any
        getItemCommand_def updateItemCommand_def table_test_env own_entries_state expiry)
qed

text \<open>
  C5, as stated, fails for a ttl that is not a whole number of minutes, which the
  constructor accepts (\<^verbatim>\<open>ttlInMinutes?: number\<close>): the code floors the sum, not the clock
  reading. With a ttl of a hundredth of a minute and the clock at 1700000000123 ms, the put
  of \<open>createSession\<close> carries the expiry 1700000000, while the whole seconds of the clock
  plus sixty times the ttl are 1700000000.6.
\<close>

theorem fractional_ttl_expiry:
  "ttl fractional = 1 / 100 \<and>
   sent (dbClient (snd (createSession test_env uuid1 timestamp [''test'' \<mapsto> AV_S ''ok''] fractional)))
     = [PutItemCommand (Some ''mijnuitkering-sessions'')
          [''sessionid'' \<mapsto> AV_S ''sha256:3b241101-e2bb-4255-8caf-4136c566a962'',
           ''data'' \<mapsto> AV_M [''test'' \<mapsto> AV_S ''ok''],
           ''ttl'' \<mapsto> AV_N ''1700000000'']] \<and>
   rat_of_int (timestamp div 1000) + ttl fractional * 60 = 1700000000 + 6 / 10"
proof -
  have "sent (dbClient (snd (createSession test_env uuid1 timestamp [''test'' \<mapsto> AV_S ''ok''] fractional)))
     = [PutItemCommand (Some ''mijnuitkering-sessions'')
          [''sessionid'' \<mapsto> AV_S (''sha256:'' @ uuid1),
           ''data'' \<mapsto> AV_M [''test'' \<mapsto> AV_S ''ok''],
           ''ttl'' \<mapsto> AV_N ''1700000000'']]"
    by (simp add: createSession_sent putItemCommand_def fractional_eval ddbMock_def
        hash_test_env table_test_env own_entries_test timestamp_fraction)
  moreover have "rat_of_int (timestamp div 1000) + ttl fractional * 60 = 1700000000 + 6 / 10"
    by (simp add: fractional_eval timestamp_def)
  moreover have "ttl fractional = 1 / 100"
    by (simp add: fractional_eval)
  ultimately show ?thesis
    by (simp add: uuid1_def)
qed

text \<open>
  C5, amended to a ttl of a whole number of minutes \<open>k\<close>, within the bounds in which the
  arithmetic of the embedding is that of the code (\<open>0 \<le> k < 2^32\<close>, clock reading
  \<open>0 \<le> now < 2^52\<close> ms). The ttl is the \<open>ttlInMinutes\<close> given to the constructor, 15 when
  none is given. On a handle after any sequence of calls: \<open>createSession\<close> sends exactly
  one command, a put whose \<open>ttl\<close> attribute is \<open>now div 1000 + k * 60\<close>; \<open>updateSession\<close> on
  a handle with a key sends exactly one command, an update that sets \<open>ttl\<close> to
  \<open>now div 1000 + k * 60\<close>; and \<open>init\<close> sends a get on a handle with a key and nothing
  otherwise, so it writes nothing.
\<close>

theorem writes_set_expiry:
  assumes "(case options of None \<Rightarrow> 15 | Some opt \<Rightarrow> ttlInMinutes opt) = of_int k"
    and "0 \<le> k" and "k < 2 ^ 32" and "0 \<le> now" and "now < 2 ^ 52"
  shows
    "sent (dbClient (snd (createSession e uuid now sessionData
        (run e cs (constructor e cookieString client options))))) =
       sent (dbClient (run e cs (constructor e cookieString client options))) @
         [PutItemCommand (SESSION_TABLE e)
            [''sessionid'' \<mapsto> AV_S (sha256_base64 e uuid),
             ''data'' \<mapsto> AV_M (own_entries sessionData),
             ''ttl'' \<mapsto> AV_N (number_toString (now div 1000 + k * 60))]] \<and>
     (truthy (sessionHash (run e cs (constructor e cookieString client options))) \<longrightarrow>
      sent (dbClient (snd (updateSession e now sessionData
        (run e cs (constructor e cookieString client options))))) =
       sent (dbClient (run e cs (constructor e cookieString client options))) @
         [UpdateItemCommand (SESSION_TABLE e)
            [''sessionid'' \<mapsto>
               AV_S (to_String (sessionHash (run e cs (constructor e cookieString client options))))]
            ''SET #ttl = :ttl, #data = :data''
            [''#ttl'' \<mapsto> ''ttl'', ''#data'' \<mapsto> ''data'']
            ['':ttl'' \<mapsto> AV_N (number_toString (now div 1000 + k * 60)),
             '':data'' \<mapsto> AV_M (own_entries sessionData)]]) \<and>
     sent (dbClient (snd (init e (run e cs (constructor e cookieString client options))))) =
       sent (dbClient (run e cs (constructor e cookieString client options))) @
         (if truthy (sessionHash (run e cs (constructor e cookieString client options)))
          then [GetItemCommand (SESSION_TABLE e)
                  [''sessionid'' \<mapsto>
                     AV_S (to_String (sessionHash (run e cs (constructor e cookieString client options))))]]
          else [])"
proof -
  let ?h = "run e cs (constructor e cookieString client options)"
  have ttl: "ttl ?h = of_int k"
    using assms(1) by (simp add: constructor_fields)
  have expiry: "ttlFromMinutes now (ttl ?h) = number_toString (now div 1000 + k * 60)"
    unfolding ttl by (rule ttlFromMinutes_eq)
  have put: "sent (dbClient (snd (createSession e uuid now sessionData ?h))) =
      sent (dbClient ?h) @
        [PutItemCommand (SESSION_TABLE e)
           [''sessionid'' \<mapsto> AV_S (sha256_base64 e uuid),
            ''data'' \<mapsto> AV_M (own_entries sessionData),
            ''ttl'' \<mapsto> AV_N (number_toString (now div 1000 + k * 60))]]"
    using expiry by (simp add: createSession_sent putItemCommand_def hash_def)
  have update: "sent (dbClient (snd (updateSession e now sessionData ?h))) =
      sent (dbClient ?h) @
        [UpdateItemCommand (SESSION_TABLE e)
           [''sessionid'' \<mapsto> AV_S (to_String (sessionHash ?h))]
           ''SET #ttl = :ttl, #data = :data''
           [''#ttl'' \<mapsto> ''ttl'', ''#data'' \<mapsto> ''data'']
           ['':ttl'' \<mapsto> AV_N (number_toString (now div 1000 + k * 60)),
            '':data'' \<mapsto> AV_M (own_entries sessionData)]]"
    if "truthy (sessionHash ?h)"
    using that expiry by (simp add: updateSession_sent_any updateItemCommand_def)
  have get: "sent (dbClient (snd (init e ?h))) =
      sent (dbClient ?h) @
        (if truthy (sessionHash ?h)
         then [GetItemCommand (SESSION_TABLE e) [''sessionid'' \<mapsto> AV_S (to_String (sessionHash ?h))]]
         else [])"
    by (simp add: init_sent getItemCommand_def)
  from put update get show ?thesis
    by blast
qed

theorem writes_set_expiry_witness:
  "0 \<le> timestamp \<and> timestamp < 2 ^ 52 \<and>
   sent (dbClient (snd (createSession test_env uuid1 timestamp [''test'' \<mapsto> AV_S ''ok''] thirty_minutes)))
     = [PutItemCommand (Some ''mijnuitkering-sessions'')
          [''sessionid'' \<mapsto> AV_S ''sha256:3b241101-e2bb-4255-8caf-4136c566a962'',
           ''data'' \<mapsto> AV_M [''test'' \<mapsto> AV_S ''ok''],
           ''ttl'' \<mapsto> AV_N ''1700001800'']] \<and>
   sent (dbClient (snd (updateSession test_env timestamp [''state'' \<mapsto> AV_S ''newState''] loaded)))
     = [GetItemCommand (Some ''mijnuitkering-sessions'') [''sessionid'' \<mapsto> AV_S ''sha256:12345''],
        UpdateItemCommand (Some ''mijnuitkering-sessions'')
          [''sessionid'' \<mapsto> AV_S ''sha256:12345'']
          ''SET #ttl = :ttl, #data = :data''
          [''#ttl'' \<mapsto> ''ttl'', ''#data'' \<mapsto> ''data'']
          ['':ttl'' \<mapsto> AV_N ''1700000900'',
           '':data'' \<mapsto> AV_M [''state'' \<mapsto> AV_S ''newState'']]] \<and>
   sent (dbClient (snd (init test_env loaded)))
     = [GetItemCommand (Some ''mijnuitkering-sessions'') [''sessionid'' \<mapsto> AV_S ''sha256:12345''],
        GetItemCommand (Some ''mijnuitkering-sessions'') [''sessionid'' \<mapsto> AV_S ''sha256:12345'']]"
proof -
  have clock: "0 \<le> timestamp" "timestamp < 2 ^ 52"
    by (simp_all add: timestamp_def)
  have thirty: "run test_env [] (constructor test_env ''session=12345;'' ddbMock
      (Some \<lparr>ttlInMinutes = 30\<rparr>)) = thirty_minutes"
    by (simp add: thirty_minutes_def)
  have o30: "(case Some \<lparr>ttlInMinutes = 30\<rparr> of None \<Rightarrow> 15 | Some opt \<Rightarrow> ttlInMinutes opt)
      = rat_of_int 30"
    by simp
  have o15: "(case None :: session_options option of None \<Rightarrow> 15 | Some opt \<Rightarrow> ttlInMinutes opt)
      = rat_of_int 15"
    by simp
  have k30: "(0::int) \<le> 30" "(30::int) < 2 ^ 32" and k15: "(0::int) \<le> 15" "(15::int) < 2 ^ 32"
    by simp_all
  from writes_set_expiry [OF o30 k30 clock,
      where e = test_env and cs = "[]" and cookieString = "''session=12345;''" and client = ddbMock
        and uuid = uuid1 and sessionData = "[''test'' \<mapsto> AV_S ''ok'']", unfolded thirty]
  have put: "sent (dbClient (snd (createSession test_env uuid1 timestamp [''test'' \<mapsto> AV_S ''ok'']
      thirty_minutes))) =
      sent (dbClient thirty_minutes) @
        [PutItemCommand (SESSION_TABLE test_env)
           [''sessionid'' \<mapsto> AV_S (sha256_base64 test_env uuid1),
            ''data'' \<mapsto> AV_M (own_entries [''test'' \<mapsto> AV_S ''ok'']),
            ''ttl'' \<mapsto> AV_N (number_toString (timestamp div 1000 + 30 * 60))]]"
    by blast
  from writes_set_expiry [OF o15 k15 clock,
      where e = test_env and cs = "[Init]" and cookieString = "''session=12345;''"
        and client = ddbMock and sessionData = "[''state'' \<mapsto> AV_S ''newState'']",
      unfolded loaded_run] loaded_facts(1)
  have update: "sent (dbClient (snd (updateSession test_env timestamp [''state'' \<mapsto> AV_S ''newState'']
      loaded))) =
      sent (dbClient loaded) @
        [UpdateItemCommand (SESSION_TABLE test_env)
           [''sessionid'' \<mapsto> AV_S (to_String (sessionHash loaded))]
           ''SET #ttl = :ttl, #data = :data''
           [''#ttl'' \<mapsto> ''ttl'', ''#data'' \<mapsto> ''data'']
           ['':ttl'' \<mapsto> AV_N (number_toString (timestamp div 1000 + 15 * 60)),
            '':data'' \<mapsto> AV_M (own_entries [''state'' \<mapsto> AV_S ''newState''])]]"
    and get: "sent (dbClient (snd (init test_env loaded))) =
      sent (dbClient loaded) @
        (if truthy (sessionHash loaded)
         then [GetItemCommand (SESSION_TABLE test_env)
                 [''sessionid'' \<mapsto> AV_S (to_String (sessionHash loaded))]]
         else [])"
    by blast+
  have 1: "sent (dbClient (snd (createSession test_env uuid1 timestamp [''test'' \<mapsto> AV_S ''ok'']
      thirty_minutes)))
     = [PutItemCommand (Some ''mijnuitkering-sessions'')
          [''sessionid'' \<mapsto> AV_S (''sha256:'' @ uuid1),
           ''data'' \<mapsto> AV_M [''test'' \<mapsto> AV_S ''ok''],
           ''ttl'' \<mapsto> AV_N ''1700001800'']]"
    unfolding put timestamp_30 own_entries_test
    by (simp add: thirty_minutes_eval ddbMock_def test_env_def)
  have 2: "sent (dbClient (snd (updateSession test_env timestamp [''state'' \<mapsto> AV_S ''newState'']
      loaded)))
     = [GetItemCommand (Some ''mijnuitkering-sessions'') [''sessionid'' \<mapsto> AV_S ''sha256:12345''],
        UpdateItemCommand (Some ''mijnuitkering-sessions'')
          [''sessionid'' \<mapsto> AV_S ''sha256:12345'']
          ''SET #ttl = :ttl, #data = :data''
          [''#ttl'' \<mapsto> ''ttl'', ''#data'' \<mapsto> ''data'']
          ['':ttl'' \<mapsto> AV_N ''1700000900'',
           '':data'' \<mapsto> AV_M [''state'' \<mapsto> AV_S ''newState'']]]"
    unfolding update timestamp_15 own_entries_state
    by (simp add: loaded_facts getItemCommand_def new_request_eval table_test_env)
  have 3: "sent (dbClient (snd (init test_env loaded)))
     = [GetItemCommand (Some ''mijnuitkering-sessions'') [''sessionid'' \<mapsto> AV_S ''sha256:12345''],
        GetItemCommand (Some ''mijnuitkering-sessions'') [''sessionid'' \<mapsto> AV_S ''sha256:12345'']]"
    unfolding get
    by (simp add: loaded_facts getItemCommand_def new_request_eval table_test_env)
  from clock 1 2 3 show ?thesis
    by (simp add: uuid1_def)
qed

text \<open>
  C6. On a handle with a loaded session, after a successful \<open>updateSession\<close> with the
  mapping \<open>sessionData\<close> the cached attribute mapping is exactly \<open>sessionData\<close>, and every
  \<open>getValue\<close> on the handle reads from it. \<open>getValue\<close> is a function of the handle alone:
  it sends nothing to the store. (A call succeeds only on a handle with a key and a cached
  mapping, see \<open>updateSession_success\<close>.)
\<close>

theorem updateSession_replaces_cache:
  assumes "updateSession e now sessionData h = (Inr u, h')"
  shows "session_M h' = Some sessionData \<and>
         (\<forall>key type. getValue h' key type =
            Inr (case sessionData key of None \<Rightarrow> None | Some a \<Rightarrow> attribute_field a type))"
  using updateSession_success(3) [OF assms] by (simp add: getValue_cached)

theorem updateSession_replaces_cache_witness:
  "fst (updateSession test_env timestamp [''state'' \<mapsto> AV_S ''newState''] loaded) = Inr () \<and>
   session_M (snd (updateSession test_env timestamp [''state'' \<mapsto> AV_S ''newState''] loaded))
     = Some [''state'' \<mapsto> AV_S ''newState''] \<and>
   getValue (snd (updateSession test_env timestamp [''state'' \<mapsto> AV_S ''newState''] loaded))
     ''state'' ''S'' = Inr (Some (VString ''newState''))"
proof -
  let ?r = "updateSession test_env timestamp [''state'' \<mapsto> AV_S ''newState''] loaded"
  have ok: "fst ?r = Inr ()"
    by (simp add: updateSession_def send_def loaded_facts ddbMock_def)
  then have h: "?r = (Inr (), snd ?r)"
    by (simp add: prod_eq_iff)
  from updateSession_replaces_cache [OF h] ok show ?thesis
    by simp
qed

text \<open>
  C7 fails on the code for the key \<^verbatim>\<open>__proto__\<close>. On the loaded handle of the unit tests,
  \<^verbatim>\<open>setValue('__proto__', 'x')\<close> succeeds and a \<open>getValue\<close> of that key then gives \<open>x\<close>, but
  the one update command that was sent carries the mapping as it was before the call: the
  assignment \<^verbatim>\<open>data.M[key] = { S: value }\<close> has set the prototype of the mapping and added
  no entry, so the new value is not written to the store. (For every other key the merged
  mapping is what is sent, see \<open>setValue_then_getValue\<close>.)
\<close>

theorem setValue_proto_key_not_written:
  "fst (setValue test_env timestamp ''__proto__'' ''x'' loaded) = Inr () \<and>
   getValue (snd (setValue test_env timestamp ''__proto__'' ''x'' loaded)) ''__proto__'' ''S''
     = Inr (Some (VString ''x'')) \<and>
   sent (dbClient (snd (setValue test_env timestamp ''__proto__'' ''x'' loaded)))
     = [GetItemCommand (Some ''mijnuitkering-sessions'') [''sessionid'' \<mapsto> AV_S ''sha256:12345''],
        UpdateItemCommand (Some ''mijnuitkering-sessions'')
          [''sessionid'' \<mapsto> AV_S ''sha256:12345'']
          ''SET #ttl = :ttl, #data = :data''
          [''#ttl'' \<mapsto> ''ttl'', ''#data'' \<mapsto> ''data'']
          ['':ttl'' \<mapsto> AV_N ''1700000900'',
           '':data'' \<mapsto> AV_M [''loggedin'' \<mapsto> AV_BOOL True, ''bsn'' \<mapsto> AV_S ''12345678'',
                               ''state'' \<mapsto> AV_S ''12345'']]]"
proof -
  let ?m = "[''loggedin'' \<mapsto> AV_BOOL True, ''bsn'' \<mapsto> AV_S ''12345678'', ''state'' \<mapsto> AV_S ''12345'']"
  let ?r = "setValue test_env timestamp ''__proto__'' ''x'' loaded"
  have sv: "?r = updateSession test_env timestamp (?m(''__proto__'' \<mapsto> AV_S ''x''))
      (assign_M (?m(''__proto__'' \<mapsto> AV_S ''x'')) loaded)"
    by (rule setValue_loaded [OF loaded_facts(2)])
  have cached: "session_M (assign_M (?m(''__proto__'' \<mapsto> AV_S ''x'')) loaded)
      = Some (?m(''__proto__'' \<mapsto> AV_S ''x''))"
    by (rule session_M_assign_M [OF loaded_facts(2)])
  have ok: "fst ?r = Inr ()"
    unfolding sv
    by (simp add: updateSession_def send_def loaded_facts ddbMock_def cached)
  have expiry: "ttlFromMinutes timestamp 15 = ''1700000900''"
    using ttlFromMinutes_eq [of timestamp 15] unfolding timestamp_15 by simp
  from setValue_then_getValue [OF loaded_facts(1,2), of test_env timestamp "''__proto__''" "''x''"]
  have read: "getValue (snd ?r) ''__proto__'' ''S'' = Inr (Some (VString ''x''))"
    and log: "sent (dbClient (snd ?r)) =
      sent (dbClient loaded) @
        [UpdateItemCommand (SESSION_TABLE test_env)
           [''sessionid'' \<mapsto> AV_S (to_String (sessionHash loaded))]
           ''SET #ttl = :ttl, #data = :data''
           [''#ttl'' \<mapsto> ''ttl'', ''#data'' \<mapsto> ''data'']
           ['':ttl'' \<mapsto> AV_N (ttlFromMinutes timestamp (ttl loaded)),
            '':data'' \<mapsto> AV_M (own_entries (?m(''__proto__'' \<mapsto> AV_S ''x'')))]]"
    by blast+
  have "sent (dbClient (snd ?r))
     = [GetItemCommand (Some ''mijnuitkering-sessions'') [''sessionid'' \<mapsto> AV_S ''sha256:12345''],
        UpdateItemCommand (Some ''mijnuitkering-sessions'')
          [''sessionid'' \<mapsto> AV_S ''sha256:12345'']
          ''SET #ttl = :ttl, #data = :data''
          [''#ttl'' \<mapsto> ''ttl'', ''#data'' \<mapsto> ''data'']
          ['':ttl'' \<mapsto> AV_N ''1700000900'', '':data'' \<mapsto> AV_M ?m]]"
    unfolding log own_entries_loaded
    by (simp add: loaded_facts expiry getItemCommand_def new_request_eval table_test_env)
  with ok read show ?thesis
    by simp
qed

text \<open>
  C8 fails on the code for the token \<open>0\<close>. The header \<^verbatim>\<open>session=0\<close> gives the handle
  the session id \<open>0\<close> and a key; \<open>getCookie\<close> compares the id with \<^verbatim>\<open>false\<close> loosely,
  takes it for absent and emits an empty \<open>session\<close> cookie, from which \<open>getSessionId\<close>
  reads no token. (For tokens that do not convert to zero the round trip holds, see
  \<open>cookie_round_trip_unreserved\<close>.)
\<close>

theorem zero_token_cookie_round_trip:
  "getSessionId ''session=0'' = JsString ''0'' \<and>
   sessionHash (constructor test_env ''session=0'' ddbMock None) = JsString (hash test_env ''0'') \<and>
   getCookie (constructor test_env ''session=0'' ddbMock None) =
     Inr ''session=; Path=/; HttpOnly; Secure'' \<and>
   getSessionId ''session=; Path=/; HttpOnly; Secure'' = JsFalse"
  by (simp add: getSessionId_zero getSessionId_cleared getCookie_def constructor_fields
      string_is_zero_0 serialize_empty)

text \<open>
  C9 fails on the code for a header without a \<open>session\<close> cookie. For \<^verbatim>\<open>foo=bar\<close>,
  \<open>getSessionId\<close> returns \<^verbatim>\<open>undefined\<close> and not \<^verbatim>\<open>false\<close>; the handle keeps it
  as its session id, and \<open>getCookie\<close> then emits the cookie \<^verbatim>\<open>session=undefined\<close>.
\<close>

theorem getSessionId_without_session_cookie:
  "getSessionId ''foo=bar'' = JsUndefined \<and>
   getCookie (constructor test_env ''foo=bar'' ddbMock None) =
     Inr ''session=undefined; Path=/; HttpOnly; Secure''"
  by (simp add: getSessionId_foo getCookie_def constructor_fields serialize_undefined)

text \<open>
  C10. On a loaded handle, when the store rejects the write that \<open>setValue\<close> issues,
  \<open>setValue\<close> fails with the store's error, and the cached mapping nonetheless holds the
  new entry: a later \<open>getValue\<close> of \<open>key\<close> on the handle gives \<open>val\<close>, which the store
  does not have.
\<close>

theorem setValue_failed_write_keeps_entry:
  assumes "truthy (sessionHash h)" and "session_M h = Some m"
    and "respond (dbClient h) (sent (dbClient h))
           (updateItemCommand e now (m(key \<mapsto> AV_S val)) h) = Inl err"
  shows "fst (setValue e now key val h) = Inl err \<and>
         session_M (snd (setValue e now key val h)) = Some (m(key \<mapsto> AV_S val)) \<and>
         getValue (snd (setValue e now key val h)) key ''S'' = Inr (Some (VString val))"
proof -
  let ?m = "m(key \<mapsto> AV_S val)"
  let ?h = "assign_M ?m h"
  have sv: "setValue e now key val h = updateSession e now ?m ?h"
    by (rule setValue_loaded [OF assms(2)])
  have cached: "session_M ?h = Some ?m"
    by (rule session_M_assign_M [OF assms(2)])
  have res: "updateSession e now ?m ?h = (Inl err, ?h\<lparr>dbClient := snd (send (dbClient h) (updateItemCommand e now ?m h))\<rparr>)"
    using assms(1,3) by (simp add: updateSession_def send_def)
  show ?thesis
    by (simp add: sv res cached getValue_cached [where m = ?m])
qed

theorem setValue_failed_write_keeps_entry_witness:
  "fst (setValue test_env timestamp ''bsn'' ''123'' (loaded\<lparr>dbClient := failing_writes\<rparr>))
     = Inl (StoreError ''ThrottlingException'') \<and>
   getValue (snd (setValue test_env timestamp ''bsn'' ''123'' (loaded\<lparr>dbClient := failing_writes\<rparr>)))
     ''bsn'' ''S'' = Inr (Some (VString ''123''))"
proof -
  let ?h = "loaded\<lparr>dbClient := failing_writes\<rparr>"
  have 1: "truthy (sessionHash ?h)" by (simp add: loaded_facts)
  have 2: "session_M ?h = Some [''loggedin'' \<mapsto> AV_BOOL True, ''bsn'' \<mapsto> AV_S ''12345678'',
                            ''state'' \<mapsto> AV_S ''12345'']" by (simp add: loaded_facts)
  have 3: "respond (dbClient ?h) (sent (dbClient ?h))
             (updateItemCommand test_env timestamp
                ([''loggedin'' \<mapsto> AV_BOOL True, ''bsn'' \<mapsto> AV_S ''12345678'',
                  ''state'' \<mapsto> AV_S ''12345''](''bsn'' \<mapsto> AV_S ''123'')) ?h)
           = Inl (StoreError ''ThrottlingException'')"
    by (simp add: failing_writes_def updateItemCommand_def)
  from setValue_failed_write_keeps_entry [OF 1 2 3] show ?thesis by simp
qed

end
